theory Spec2Isabelle
  imports Complex_Main
begin

section \<open>Floating-point values and one-dimensional arrays\<close>

text \<open>
  The script \<^verbatim>\<open>examples/example11/fracture_opening_convergence_tests_sneddon.py\<close>
  computes with numpy arrays of doubles. A double is modelled as a finite real number or
  NaN: rounding, overflow and the infinities are outside the model. numpy answers a
  square root of a negative number with NaN and a division by zero with an infinity or
  NaN (and a warning, no exception); here both are NaN. Every comparison with NaN is
  false, as in IEEE arithmetic.
\<close>

datatype error =
  AssertionError | IndexError | ValueError | UnboundLocalError | ZeroDivisionError | NameError

datatype npfloat = Fin real | NaN

fun lift2 :: "(real \<Rightarrow> real \<Rightarrow> real) \<Rightarrow> npfloat \<Rightarrow> npfloat \<Rightarrow> npfloat" where
  "lift2 f (Fin x) (Fin y) = Fin (f x y)"
| "lift2 f _ _ = NaN"

definition fadd :: "npfloat \<Rightarrow> npfloat \<Rightarrow> npfloat" where
  "fadd = lift2 (+)"

definition fsub :: "npfloat \<Rightarrow> npfloat \<Rightarrow> npfloat" where
  "fsub = lift2 (-)"

definition fmul :: "npfloat \<Rightarrow> npfloat \<Rightarrow> npfloat" where
  "fmul = lift2 (*)"

fun fdiv :: "npfloat \<Rightarrow> npfloat \<Rightarrow> npfloat" where
  "fdiv (Fin x) (Fin y) = (if y = 0 then NaN else Fin (x / y))"
| "fdiv _ _ = NaN"

fun fsqrt :: "npfloat \<Rightarrow> npfloat" where
  "fsqrt (Fin x) = (if x < 0 then NaN else Fin (sqrt x))"
| "fsqrt NaN = NaN"

fun fabs :: "npfloat \<Rightarrow> npfloat" where
  "fabs (Fin x) = Fin \<bar>x\<bar>"
| "fabs NaN = NaN"

text \<open>\<^verbatim>\<open>np.square(x)\<close> and \<^verbatim>\<open>np.power(x, 2)\<close>.\<close>

fun fsquare :: "npfloat \<Rightarrow> npfloat" where
  "fsquare (Fin x) = Fin (x * x)"
| "fsquare NaN = NaN"

text \<open>\<^verbatim>\<open>x > y\<close> on doubles.\<close>

fun fgt :: "npfloat \<Rightarrow> npfloat \<Rightarrow> bool" where
  "fgt (Fin x) (Fin y) = (y < x)"
| "fgt _ _ = False"

text \<open>The maximum of two doubles as \<^verbatim>\<open>np.max\<close> combines them: NaN propagates.\<close>

fun fmax :: "npfloat \<Rightarrow> npfloat \<Rightarrow> npfloat" where
  "fmax (Fin x) (Fin y) = Fin (max x y)"
| "fmax _ _ = NaN"

text \<open>
  A binary ufunc on two one-dimensional arrays: elementwise on equal lengths, an array
  of length one is broadcast against the other, any other pair of shapes raises
  ValueError.
\<close>

definition broadcast2 ::
  "(npfloat \<Rightarrow> npfloat \<Rightarrow> npfloat) \<Rightarrow> npfloat list \<Rightarrow> npfloat list \<Rightarrow> error + npfloat list" where
  "broadcast2 f xs ys =
     (if length xs = length ys then Inr (map2 f xs ys)
      else if length xs = 1 then Inr (map (f (hd xs)) ys)
      else if length ys = 1 then Inr (map (\<lambda>x. f x (hd ys)) xs)
      else Inl ValueError)"

definition np_subtract :: "npfloat list \<Rightarrow> npfloat list \<Rightarrow> error + npfloat list" where
  "np_subtract = broadcast2 fsub"

definition np_multiply :: "npfloat list \<Rightarrow> npfloat list \<Rightarrow> error + npfloat list" where
  "np_multiply = broadcast2 fmul"

text \<open>\<^verbatim>\<open>np.sum\<close>: the sum of the empty array is 0.\<close>

primrec np_sum :: "npfloat list \<Rightarrow> npfloat" where
  "np_sum [] = Fin 0"
| "np_sum (x # xs) = fadd x (np_sum xs)"

text \<open>\<^verbatim>\<open>np.max\<close>: raises ValueError on an empty array.\<close>

definition np_max :: "npfloat list \<Rightarrow> error + npfloat" where
  "np_max xs = (case xs of [] \<Rightarrow> Inl ValueError | x # rest \<Rightarrow> Inr (fold fmax rest x))"

text \<open>\<^verbatim>\<open>xs[idx]\<close> with an array of indices: IndexError when an index is out of range.\<close>

definition np_take :: "'a list \<Rightarrow> nat list \<Rightarrow> error + 'a list" where
  "np_take xs idx =
     (if list_all (\<lambda>i. i < length xs) idx then Inr (map (nth xs) idx) else Inl IndexError)"

text \<open>\<^verbatim>\<open>xs[mask]\<close> with a boolean array: IndexError when the lengths differ.\<close>

definition np_select :: "bool list \<Rightarrow> 'a list \<Rightarrow> error + 'a list" where
  "np_select msk xs =
     (if length msk = length xs then Inr (map snd (filter fst (zip msk xs)))
      else Inl IndexError)"

text \<open>\<^verbatim>\<open>np.arange(start, stop, step)\<close> on non-negative integers with a positive step.\<close>

definition arange :: "nat \<Rightarrow> nat \<Rightarrow> nat \<Rightarrow> nat list" where
  "arange start stop step =
     map (\<lambda>k. start + k * step) [0 ..< (stop - start + step - 1) div step]"

text \<open>
  \<^verbatim>\<open>np.isclose(x, y)\<close> with the default tolerances \<^verbatim>\<open>rtol=1e-05\<close>,
  \<^verbatim>\<open>atol=1e-08\<close>.
\<close>

definition isclose :: "real \<Rightarrow> real \<Rightarrow> bool" where
  "isclose x y = (\<bar>x - y\<bar> \<le> 1 / 10 ^ 8 + (1 / 10 ^ 5) * \<bar>y\<bar>)"


section \<open>Error norms\<close>

text \<open>
  \<^verbatim>\<open>
  def L2_norm(val, area):
      return np.sqrt(np.sum(np.multiply(area, np.square(val))))

  def L2_error(v_ref, v_approx, area):
      enum = L2_norm(v_approx - v_ref, area)
      denom = L2_norm(v_ref, area)
      return enum / denom
  \<close>
\<close>

definition L2_norm :: "npfloat list \<Rightarrow> npfloat list \<Rightarrow> error + npfloat" where
  "L2_norm val area =
     (case np_multiply area (map fsquare val) of
        Inl e \<Rightarrow> Inl e
      | Inr ws \<Rightarrow> Inr (fsqrt (np_sum ws)))"

definition L2_error :: "npfloat list \<Rightarrow> npfloat list \<Rightarrow> npfloat list \<Rightarrow> error + npfloat" where
  "L2_error v_ref v_approx area =
     (case np_subtract v_approx v_ref of
        Inl e \<Rightarrow> Inl e
      | Inr d \<Rightarrow>
          (case L2_norm d area of
             Inl e \<Rightarrow> Inl e
           | Inr enum \<Rightarrow>
               (case L2_norm v_ref area of
                  Inl e \<Rightarrow> Inl e
                | Inr denom \<Rightarrow> Inr (fdiv enum denom))))"


section \<open>Grids, node properties and the script's global configuration\<close>

text \<open>
  The fields of a porepy grid that the script reads: \<^verbatim>\<open>g.dim\<close>,
  \<^verbatim>\<open>g.num_cells\<close>, the columns of the \<^verbatim>\<open>3 x num_faces\<close> array
  \<^verbatim>\<open>g.face_centers\<close>, \<^verbatim>\<open>g.face_areas\<close>, and the columns of the
  \<^verbatim>\<open>2 x n\<close> integer array \<^verbatim>\<open>g.frac_pairs\<close> (so
  \<^verbatim>\<open>frac_pairs[0]\<close> is \<open>map fst\<close>, \<^verbatim>\<open>frac_pairs.shape[1]\<close> the
  length and \<^verbatim>\<open>frac_pairs.size\<close> twice the length). The geometry of a mesh is
  finite, hence real.
\<close>

record grid =
  dim :: nat
  num_cells :: nat
  face_centers :: "(real \<times> real \<times> real) list"
  face_areas :: "real list"
  frac_pairs :: "(nat \<times> nat) list"

text \<open>The node properties \<^verbatim>\<open>d_h['shear_modulus']\<close> and \<^verbatim>\<open>d_h['Poisson']\<close>,
  plain Python numbers.\<close>

record props =
  shear_modulus :: real
  Poisson :: real

text \<open>
  The grid bucket as the script reads it: \<open>g_h\<close> is
  \<^verbatim>\<open>gb.grids_of_dimension(gb.dim_max())[0]\<close>, \<open>d_h\<close> is
  \<^verbatim>\<open>gb.node_props(g_h)\<close>, and \<open>frac_num_cells\<close> is
  \<^verbatim>\<open>gb.grids_of_dimension(gb.dim_min())[0].num_cells\<close>.
\<close>

record bucket =
  g_h :: grid
  d_h :: props
  frac_num_cells :: nat

definition dim_max :: "bucket \<Rightarrow> nat" where
  "dim_max gb = dim (g_h gb)"

text \<open>
  The module namespace that the functions read. The \<^verbatim>\<open>__main__\<close> block sets
  \<^verbatim>\<open>penny\<close>, \<^verbatim>\<open>center\<close>, \<^verbatim>\<open>beta\<close>, \<^verbatim>\<open>a\<close> (here \<open>a_g\<close>)
  and \<^verbatim>\<open>p0\<close>. The name \<^verbatim>\<open>cg\<close>, which \<^verbatim>\<open>compute_eta\<close> reads, is
  bound by no statement of the script: its imports bind \<^verbatim>\<open>sps\<close>, \<^verbatim>\<open>np\<close>,
  \<^verbatim>\<open>plt\<close>, \<^verbatim>\<open>pp\<close>, \<^verbatim>\<open>set_bc_mech_tension_sneddon\<close> and
  \<^verbatim>\<open>LSFactory\<close>, and \<^verbatim>\<open>porepy/__init__.py\<close> makes the module
  \<^verbatim>\<open>porepy.utils.comp_geom\<close> available as \<^verbatim>\<open>pp.cg\<close> only. The field
  \<open>cg_bound\<close> says whether the namespace binds \<^verbatim>\<open>cg\<close> to that module.
\<close>

record globals =
  penny :: bool
  center :: "real \<times> real \<times> real"
  beta :: real
  a_g :: real
  p0 :: real
  cg_bound :: bool

text \<open>
  The namespace as the script's own \<^verbatim>\<open>__main__\<close> block leaves it:
  \<^verbatim>\<open>
      penny = False
      height = 50
      length = 50
      center = np.array([length / 2, length / 2, 0])
      beta = np.pi / 2  # inclination from vertical axis
      a = 3  # fracture radius
      p0 = 1e-5
  \<close>
  and no binding of \<^verbatim>\<open>cg\<close>.
\<close>

definition main_globals :: globals where
  "main_globals =
     \<lparr>penny = False, center = (50 / 2, 50 / 2, 0), beta = pi / 2, a_g = 3, p0 = 1 / 10 ^ 5,
      cg_bound = False\<rparr>"


section \<open>Fracture geometry\<close>

text \<open>
  \<^verbatim>\<open>
  def fracture_2d(length, height, a, beta, fracture):
      if fracture:
          y_0 = height / 2 - a * np.cos(beta)
          x_0 = length / 2 - a * np.sin(beta)
          y_1 = height / 2 + a * np.cos(beta)
          x_1 = length / 2 + a * np.sin(beta)
          f = [np.array([[x_0, x_1],
                        [y_0, y_1]])]
      else:
          f = []
      return f
  \<close>
  The \<^verbatim>\<open>2 x 2\<close> array is the pair of its rows.
\<close>

definition fracture_2d ::
  "real \<Rightarrow> real \<Rightarrow> real \<Rightarrow> real \<Rightarrow> bool \<Rightarrow> ((real \<times> real) \<times> (real \<times> real)) list" where
  "fracture_2d len height a bta fracture =
     (if fracture then
        (let y_0 = height / 2 - a * cos bta;
             x_0 = len / 2 - a * sin bta;
             y_1 = height / 2 + a * cos bta;
             x_1 = len / 2 + a * sin bta
         in [((x_0, x_1), (y_0, y_1))])
      else [])"


section \<open>Arc-length coordinate and analytical aperture\<close>

text \<open>
  Modelled from the spec: \<^verbatim>\<open>dist_point_pointset\<close> of
  \<^verbatim>\<open>porepy.utils.comp_geom\<close> is not part of the excerpt. The spec describes the
  arc-length coordinate as the distance of a fracture cell from a reference center: the
  Euclidean distance of each point of the set to the given point.
\<close>

definition point_dist :: "real \<times> real \<times> real \<Rightarrow> real \<times> real \<times> real \<Rightarrow> real" where
  "point_dist p q =
     (case p of (x, y, z) \<Rightarrow> case q of (cx, cy, cz) \<Rightarrow>
        sqrt ((x - cx)\<^sup>2 + (y - cy)\<^sup>2 + (z - cz)\<^sup>2))"

definition dist_point_pointset ::
  "(real \<times> real \<times> real) list \<Rightarrow> real \<times> real \<times> real \<Rightarrow> real list" where
  "dist_point_pointset ps c = map (\<lambda>p. point_dist p c) ps"

text \<open>
  \<^verbatim>\<open>
  def compute_eta(g_h):
      return cg.dist_point_pointset(g_h.face_centers[:, g_h.frac_pairs[0]],
                                        center)
  \<close>
  Python looks the name \<^verbatim>\<open>cg\<close> up first: NameError when the namespace does not
  bind it, before the arguments are evaluated.
\<close>

definition compute_eta :: "globals \<Rightarrow> grid \<Rightarrow> error + real list" where
  "compute_eta G g =
     (if \<not> cg_bound G then Inl NameError
      else
        (case np_take (face_centers g) (map fst (frac_pairs g)) of
           Inl e \<Rightarrow> Inl e
         | Inr ps \<Rightarrow> Inr (dist_point_pointset ps (center G))))"

text \<open>
  The index array \<^verbatim>\<open>frac_ind\<close> that \<^verbatim>\<open>analytical_displacements\<close> returns:
  \<^verbatim>\<open>np.array([frac_ind_1, frac_ind_2])\<close> of shape \<^verbatim>\<open>(2, n)\<close> when beta is
  close to \<open>pi / 2\<close>, and of shape \<^verbatim>\<open>(2, 2, n)\<close>, namely
  \<^verbatim>\<open>[[frac_ind_1, x_ind_1], [frac_ind_2, x_ind_2]]\<close>, otherwise.
\<close>

datatype dof_ind =
    Normal "nat list" "nat list"
  | WithX "nat list" "nat list" "nat list" "nat list"

text \<open>
  \<^verbatim>\<open>
  def analytical_displacements(gb, a, sigma=1):
      dim_h = gb.dim_max()
      g_h = gb.grids_of_dimension(dim_h)[0]
      d_h = gb.node_props(g_h)
      mu = d_h['shear_modulus']
      nu = d_h['Poisson']
      last_ind = dim_h - 1 # pull in y direction for 2d, z in 3d
      eta = compute_eta(g_h)
      cons = (1 - nu) / mu * p0 * a * 2
      if penny:
          cons *= 2/np.pi
      apertures = cons * np.sqrt(1 - np.power(eta / a, 2) )
      n_f = g_h.num_cells * dim_h
      frac_ind_1 = np.arange(n_f + last_ind, n_f + g_h.frac_pairs.shape[1] * dim_h, dim_h)
      frac_ind_2 = np.arange(last_ind + n_f + g_h.frac_pairs.shape[1] * dim_h,
                             last_ind + n_f + g_h.frac_pairs.size * dim_h,  dim_h)
      if not np.isclose(beta, np.pi / 2):
          x_ind_1 = np.arange(n_f, n_f + g_h.frac_pairs.shape[1] * dim_h, dim_h)
          x_ind_2 = np.arange(n_f + g_h.frac_pairs.shape[1] * dim_h,
                              n_f + g_h.frac_pairs.size * dim_h,  dim_h)
          frac_ind_1 = np.array([frac_ind_1, x_ind_1])
          frac_ind_2 = np.array([frac_ind_2, x_ind_2])
      frac_ind = np.array([frac_ind_1, frac_ind_2])
      return apertures, frac_ind, eta
  \<close>
  The quotient \<^verbatim>\<open>(1 - nu) / mu\<close> of Python numbers raises ZeroDivisionError for
  \<open>mu = 0\<close>; the quotient \<^verbatim>\<open>eta / a\<close> is taken by numpy. A dimension of zero makes
  the step of \<^verbatim>\<open>np.arange\<close> zero, which raises ZeroDivisionError.
\<close>

definition aperture_cons :: "globals \<Rightarrow> real \<Rightarrow> real \<Rightarrow> real \<Rightarrow> real" where
  "aperture_cons G mu nu a =
     (let cons = (1 - nu) / mu * p0 G * a * 2
      in if penny G then cons * (2 / pi) else cons)"

definition aperture_at :: "real \<Rightarrow> real \<Rightarrow> real \<Rightarrow> npfloat" where
  "aperture_at cons a e =
     fmul (Fin cons) (fsqrt (fsub (Fin 1) (fsquare (fdiv (Fin e) (Fin a)))))"

definition analytical_displacements ::
  "globals \<Rightarrow> bucket \<Rightarrow> real \<Rightarrow> error + (npfloat list \<times> dof_ind \<times> real list)" where
  "analytical_displacements G gb a =
     (let dim_h = dim_max gb;
          g = g_h gb;
          d = d_h gb;
          mu = shear_modulus d;
          nu = Poisson d;
          last_ind = dim_h - 1
      in case compute_eta G g of
           Inl e \<Rightarrow> Inl e
         | Inr eta \<Rightarrow>
             if mu = 0 then Inl ZeroDivisionError
             else
               (let cons = aperture_cons G mu nu a;
                    apertures = map (aperture_at cons a) eta;
                    n_f = num_cells g * dim_h;
                    n = length (frac_pairs g)
                in if dim_h = 0 then Inl ZeroDivisionError
                   else
                     (let frac_ind_1 = arange (n_f + last_ind) (n_f + n * dim_h) dim_h;
                          frac_ind_2 = arange (last_ind + n_f + n * dim_h)
                                              (last_ind + n_f + (2 * n) * dim_h) dim_h
                      in if \<not> isclose (beta G) (pi / 2) then
                           (let x_ind_1 = arange n_f (n_f + n * dim_h) dim_h;
                                x_ind_2 = arange (n_f + n * dim_h) (n_f + (2 * n) * dim_h) dim_h
                            in Inr (apertures, WithX frac_ind_1 x_ind_1 frac_ind_2 x_ind_2, eta))
                         else Inr (apertures, Normal frac_ind_1 frac_ind_2, eta))))"


section \<open>Displacement extraction\<close>

text \<open>
  \<^verbatim>\<open>
  def solve(gb, dim_h, kw={}):
      discr = pp.FracturedMpsa(given_traction=True)
      g_h = gb.grids_of_dimension(dim_h)[0]
      d_h = gb.node_props(g_h)
      lhs, rhs = discr.matrix_rhs(g_h, d_h)
      u = sps.linalg.spsolve(lhs, rhs)
      aperture_analytical, dof_ind, eta = analytical_displacements(gb, a)
      if np.isclose(beta, np.pi / 2):
          aperture = np.absolute(np.diff(u[dof_ind], axis=0))[0]
      elif np.isclose(beta, np.pi / 4):
          u_right = u[dof_ind[0]]
          u_left = u[dof_ind[1]]
          d_u = u_right - u_left
          aperture = np.linalg.norm(d_u, axis=0)
      return aperture, aperture_analytical, u, eta
  \<close>
  The discretisation and the sparse solve are outside the script: \<open>mech_solve\<close> stands
  for \<^verbatim>\<open>spsolve(*discr.matrix_rhs(g_h, d_h))\<close>. The only call passes
  \<^verbatim>\<open>gb.dim_max()\<close> for \<^verbatim>\<open>dim_h\<close>. When neither test on beta holds, the name
  \<^verbatim>\<open>aperture\<close> is unbound at the return: UnboundLocalError. Both functions test
  the same global beta, so a \<open>Normal\<close> index array meets the first branch and a
  \<open>WithX\<close> one the second; the two other combinations cannot arise (lemma
  \<open>analytical_displacements_dof\<close>) and are given ValueError.
\<close>

definition vertical_aperture :: "npfloat list \<Rightarrow> nat list \<Rightarrow> nat list \<Rightarrow> error + npfloat list" where
  "vertical_aperture u i1 i2 =
     (case np_take u i1 of
        Inl e \<Rightarrow> Inl e
      | Inr u1 \<Rightarrow>
          (case np_take u i2 of
             Inl e \<Rightarrow> Inl e
           | Inr u2 \<Rightarrow> Inr (map fabs (map2 fsub u2 u1))))"

definition oblique_aperture ::
  "npfloat list \<Rightarrow> nat list \<Rightarrow> nat list \<Rightarrow> nat list \<Rightarrow> nat list \<Rightarrow> error + npfloat list" where
  "oblique_aperture u f1 x1 f2 x2 =
     (case np_take u f1 of Inl e \<Rightarrow> Inl e | Inr r0 \<Rightarrow>
     (case np_take u x1 of Inl e \<Rightarrow> Inl e | Inr r1 \<Rightarrow>
     (case np_take u f2 of Inl e \<Rightarrow> Inl e | Inr l0 \<Rightarrow>
     (case np_take u x2 of Inl e \<Rightarrow> Inl e | Inr l1 \<Rightarrow>
        Inr (map2 (\<lambda>d0 d1. fsqrt (fadd (fsquare (fabs d0)) (fsquare (fabs d1))))
               (map2 fsub r0 l0) (map2 fsub r1 l1))))))"

definition solve ::
  "(grid \<Rightarrow> props \<Rightarrow> npfloat list) \<Rightarrow> globals \<Rightarrow> bucket \<Rightarrow>
     error + (npfloat list \<times> npfloat list \<times> npfloat list \<times> real list)" where
  "solve mech_solve G gb =
     (let u = mech_solve (g_h gb) (d_h gb)
      in case analytical_displacements G gb (a_g G) of
           Inl e \<Rightarrow> Inl e
         | Inr (aperture_analytical, dof, eta) \<Rightarrow>
             if isclose (beta G) (pi / 2) then
               (case dof of
                  Normal i1 i2 \<Rightarrow>
                    (case vertical_aperture u i1 i2 of
                       Inl e \<Rightarrow> Inl e
                     | Inr aperture \<Rightarrow> Inr (aperture, aperture_analytical, u, eta))
                | WithX f1 x1 f2 x2 \<Rightarrow> Inl ValueError)
             else if isclose (beta G) (pi / 4) then
               (case dof of
                  WithX f1 x1 f2 x2 \<Rightarrow>
                    (case oblique_aperture u f1 x1 f2 x2 of
                       Inl e \<Rightarrow> Inl e
                     | Inr aperture \<Rightarrow> Inr (aperture, aperture_analytical, u, eta))
                | Normal i1 i2 \<Rightarrow> Inl ValueError)
             else Inl UnboundLocalError)"


section \<open>The convergence loop\<close>

text \<open>
  The lists that \<^verbatim>\<open>run_multiple_and_plot\<close> fills, one entry per resolution.
\<close>

record records =
  errors :: "npfloat list"
  errors_I :: "npfloat list"
  errors_max :: "npfloat list"
  errors_el :: "npfloat list"
  apertures :: "npfloat list list"
  apertures_a :: "npfloat list list"
  fracture_cells :: "nat list"

definition empty_records :: records where
  "empty_records =
     \<lparr>errors = [], errors_I = [], errors_max = [], errors_el = [],
      apertures = [], apertures_a = [], fracture_cells = []\<rparr>"

text \<open>
  How an iteration, or the loop, ends: normally with the lists as they are then, or with
  an exception, recorded together with the lists as they stand when it is raised.
\<close>

datatype outcome = Done records | Raised error records

text \<open>
  \<^verbatim>\<open>
      for item in nc:
          gb = function(item)
          g_h = gb.grids_of_dimension(gb.dim_max())[0]
          assign_parameters(gb)
          aperture, aperture_a, u, eta = solve(gb, gb.dim_max())
          assert np.all(aperture > 0)
          areas = g_h.face_areas[g_h.frac_pairs[0]]
          e = np.absolute(aperture_a - aperture)/np.max(aperture_a)
          errors.append(L2_error(aperture_a, aperture, areas))
          errors_I.append(L2_norm(aperture_a - aperture, areas) / (np.sum(areas) * np.max(aperture_a)))
          errors_max.append(np.max(e))
          i =  eta<(.9*a)
          errors_el.append(L2_error(aperture_a[i], aperture[i], areas[i]))
          apertures.append(aperture)
          apertures_a.append(aperture_a)
          fracture_cells.append(gb.grids_of_dimension(gb.dim_min())[0].num_cells)
  \<close>
  The mesher and the assignment of parameters are outside the script: \<open>make_bucket\<close>
  stands for \<^verbatim>\<open>function(item)\<close> followed by \<^verbatim>\<open>assign_parameters(gb)\<close>.
  Assertions are taken to be enabled. Plotting is not modelled.
\<close>

text \<open>\<^verbatim>\<open>np.all(aperture > 0)\<close>, the condition of the assertion.\<close>

definition all_positive :: "npfloat list \<Rightarrow> bool" where
  "all_positive aperture = list_all (\<lambda>x. fgt x (Fin 0)) aperture"

text \<open>\<^verbatim>\<open>i = eta<(.9*a)\<close>, with the global a.\<close>

definition interior_mask :: "globals \<Rightarrow> real list \<Rightarrow> bool list" where
  "interior_mask G eta = map (\<lambda>x. x < 9 / 10 * a_g G) eta"

definition interior_error ::
  "bool list \<Rightarrow> npfloat list \<Rightarrow> npfloat list \<Rightarrow> npfloat list \<Rightarrow> error + npfloat" where
  "interior_error i aperture_a aperture areas =
     (case np_select i aperture_a of Inl e \<Rightarrow> Inl e | Inr ref_i \<Rightarrow>
     (case np_select i aperture of Inl e \<Rightarrow> Inl e | Inr approx_i \<Rightarrow>
     (case np_select i areas of Inl e \<Rightarrow> Inl e | Inr areas_i \<Rightarrow>
        L2_error ref_i approx_i areas_i)))"

definition pointwise_error :: "npfloat list \<Rightarrow> npfloat list \<Rightarrow> error + npfloat list" where
  "pointwise_error aperture_a aperture =
     (case np_subtract aperture_a aperture of Inl e \<Rightarrow> Inl e | Inr d \<Rightarrow>
     (case np_max aperture_a of Inl e \<Rightarrow> Inl e | Inr m \<Rightarrow>
        Inr (map (\<lambda>x. fdiv (fabs x) m) d)))"

definition mean_error :: "npfloat list \<Rightarrow> npfloat list \<Rightarrow> npfloat list \<Rightarrow> error + npfloat" where
  "mean_error aperture_a aperture areas =
     (case np_subtract aperture_a aperture of Inl e \<Rightarrow> Inl e | Inr d \<Rightarrow>
     (case L2_norm d areas of Inl e \<Rightarrow> Inl e | Inr n \<Rightarrow>
     (case np_max aperture_a of Inl e \<Rightarrow> Inl e | Inr m \<Rightarrow>
        Inr (fdiv n (fmul (np_sum areas) m)))))"

definition loop_body ::
  "('i \<Rightarrow> bucket) \<Rightarrow> (grid \<Rightarrow> props \<Rightarrow> npfloat list) \<Rightarrow> globals \<Rightarrow> records \<Rightarrow> 'i \<Rightarrow> outcome" where
  "loop_body make_bucket mech_solve G st item =
     (let gb = make_bucket item;
          g = g_h gb
      in case solve mech_solve G gb of
           Inl x \<Rightarrow> Raised x st
         | Inr (aperture, aperture_a, u, eta) \<Rightarrow>
             if \<not> all_positive aperture then Raised AssertionError st
             else
               (case np_take (face_areas g) (map fst (frac_pairs g)) of
                  Inl x \<Rightarrow> Raised x st
                | Inr areas_r \<Rightarrow>
                    (let areas = map Fin areas_r
                     in case pointwise_error aperture_a aperture of
                          Inl x \<Rightarrow> Raised x st
                        | Inr e \<Rightarrow>
                     (case L2_error aperture_a aperture areas of
                          Inl x \<Rightarrow> Raised x st
                        | Inr err \<Rightarrow>
                     (let st1 = st\<lparr>errors := errors st @ [err]\<rparr>
                      in case mean_error aperture_a aperture areas of
                          Inl x \<Rightarrow> Raised x st1
                        | Inr err_I \<Rightarrow>
                     (let st2 = st1\<lparr>errors_I := errors_I st1 @ [err_I]\<rparr>
                      in case np_max e of
                          Inl x \<Rightarrow> Raised x st2
                        | Inr err_max \<Rightarrow>
                     (let st3 = st2\<lparr>errors_max := errors_max st2 @ [err_max]\<rparr>;
                          i = interior_mask G eta
                      in case interior_error i aperture_a aperture areas of
                          Inl x \<Rightarrow> Raised x st3
                        | Inr err_el \<Rightarrow>
                            Done (st3\<lparr>errors_el := errors_el st3 @ [err_el],
                                      apertures := apertures st3 @ [aperture],
                                      apertures_a := apertures_a st3 @ [aperture_a],
                                      fracture_cells :=
                                        fracture_cells st3 @ [frac_num_cells gb]\<rparr>))))))))"

fun run_loop ::
  "('i \<Rightarrow> bucket) \<Rightarrow> (grid \<Rightarrow> props \<Rightarrow> npfloat list) \<Rightarrow> globals \<Rightarrow> records \<Rightarrow> 'i list \<Rightarrow> outcome" where
  "run_loop make_bucket mech_solve G st [] = Done st"
| "run_loop make_bucket mech_solve G st (item # rest) =
     (case loop_body make_bucket mech_solve G st item of
        Raised x st' \<Rightarrow> Raised x st'
      | Done st' \<Rightarrow> run_loop make_bucket mech_solve G st' rest)"


section \<open>Notions used to state the properties\<close>

text \<open>The area-weighted sum of squares \<open>sum(area_i * val_i^2)\<close> of real arrays.\<close>

definition wsum :: "real list \<Rightarrow> real list \<Rightarrow> real" where
  "wsum area val = (\<Sum>i = 0..<length val. area ! i * (val ! i)\<^sup>2)"

text \<open>The midpoint of the segment that a \<^verbatim>\<open>2 x 2\<close> coordinate array describes.\<close>

definition segment_midpoint :: "(real \<times> real) \<times> (real \<times> real) \<Rightarrow> real \<times> real" where
  "segment_midpoint f =
     (case f of ((x_0, x_1), (y_0, y_1)) \<Rightarrow> ((x_0 + x_1) / 2, (y_0 + y_1) / 2))"

text \<open>
  A small two-dimensional grid with two faces on the fracture, at distances 0 and 1 from
  the center, and the surroundings to run the functions on it; the sample namespace binds
  \<^verbatim>\<open>cg\<close>. The number \<open>z\<close> is the
  area of the first face, and the sample solver returns a displacement vector whose last
  entry is \<open>z\<close>, giving the jumps 3 and \<open>|z - 2|\<close> across the two pairs.
\<close>

definition sample_grid :: "real \<Rightarrow> grid" where
  "sample_grid z =
     \<lparr>dim = 2, num_cells = 1, face_centers = [(25, 25, 0), (26, 25, 0), (25, 25, 0), (26, 25, 0)],
      face_areas = [z, 1, 1, 1], frac_pairs = [(0, 2), (1, 3)]\<rparr>"

definition sample_bucket :: "real \<Rightarrow> bucket" where
  "sample_bucket z =
     \<lparr>g_h = sample_grid z, d_h = \<lparr>shear_modulus = 1, Poisson = 0\<rparr>, frac_num_cells = 2\<rparr>"

definition sample_globals :: "real \<Rightarrow> globals" where
  "sample_globals bta =
     \<lparr>penny = False, center = (25, 25, 0), beta = bta, a_g = 2, p0 = 1, cg_bound = True\<rparr>"

definition sample_u :: "real \<Rightarrow> npfloat list" where
  "sample_u z = map Fin [0, 0, 0, 1, 0, 2, 0, 4, 0, z]"

definition sample_solver :: "grid \<Rightarrow> props \<Rightarrow> npfloat list" where
  "sample_solver g d = sample_u (hd (face_areas g))"

text \<open>
  The sub-array of \<open>xs\<close> at the cells whose coordinate in \<open>eta\<close> satisfies \<open>P\<close>.
\<close>

definition sub_array :: "('e \<Rightarrow> bool) \<Rightarrow> 'e list \<Rightarrow> 'a list \<Rightarrow> 'a list" where
  "sub_array P eta xs = map snd (filter (\<lambda>p. P (fst p)) (zip eta xs))"

section \<open>Properties of the error norms\<close>

lemma broadcast2_same_length:
  "length xs = length ys \<Longrightarrow> broadcast2 f xs ys = Inr (map2 f xs ys)"
  by (simp add: broadcast2_def)

lemma np_sum_Fin: "np_sum (map Fin xs) = Fin (sum_list xs)"
  by (induction xs) (simp_all add: fadd_def)

lemma map2_lift2_Fin:
  "map2 (lift2 f) (map Fin xs) (map Fin ys) = map Fin (map2 f xs ys)"
  by (induction xs arbitrary: ys) (case_tac ys; simp)+

lemma sum_list_map2_nth:
  "length xs = length ys \<Longrightarrow>
     sum_list (map2 f xs ys) = (\<Sum>i = 0..<length ys. f (xs ! i) (ys ! i))"
  by (simp add: sum_list_sum_nth)

lemma L2_norm_Fin:
  assumes "length area = length val"
  shows "L2_norm (map Fin val) (map Fin area) = Inr (fsqrt (Fin (wsum area val)))"
proof -
  have "np_multiply (map Fin area) (map fsquare (map Fin val))
        = Inr (map Fin (map2 (*) area (map (\<lambda>x. x * x) val)))"
  proof -
    have sq: "map fsquare (map Fin val) = map Fin (map (\<lambda>x. x * x) val)" by simp
    show ?thesis
      unfolding sq np_multiply_def fmul_def
      using assms by (simp only: broadcast2_same_length length_map map2_lift2_Fin)
  qed
  moreover have "sum_list (map2 (*) area (map (\<lambda>x. x * x) val)) = wsum area val"
    using assms by (simp add: sum_list_map2_nth wsum_def power2_eq_square)
  ultimately show ?thesis
    unfolding L2_norm_def by (simp only: sum.case np_sum_Fin)
qed

lemma wsum_nonneg:
  "\<forall>w \<in> set area. 0 \<le> w \<Longrightarrow> length area = length val \<Longrightarrow> 0 \<le> wsum area val"
  unfolding wsum_def by (intro sum_nonneg mult_nonneg_nonneg) auto

lemma np_subtract_Fin:
  "length v = length w \<Longrightarrow>
     np_subtract (map Fin v) (map Fin w) = Inr (map Fin (map2 (-) v w))"
  by (simp only: np_subtract_def fsub_def broadcast2_same_length length_map map2_lift2_Fin)

lemma L2_error_Fin:
  assumes len: "length v = length ref" "length area = length ref"
    and nonneg: "\<forall>w \<in> set area. 0 \<le> w"
    and pos: "0 < wsum area ref"
  shows "L2_error (map Fin ref) (map Fin v) (map Fin area)
           = Inr (Fin (sqrt (wsum area (map2 (-) v ref)) / sqrt (wsum area ref)))"
proof -
  have den: "L2_norm (map Fin ref) (map Fin area) = Inr (Fin (sqrt (wsum area ref)))"
    using len pos by (simp add: L2_norm_Fin)
  have dpos: "sqrt (wsum area ref) \<noteq> 0"
    using pos by simp
  have "0 \<le> wsum area (map2 (-) v ref)"
    using nonneg len by (intro wsum_nonneg) simp_all
  moreover have "length area = length (map2 (-) v ref)"
    using len by simp
  ultimately have num: "L2_norm (map Fin (map2 (-) v ref)) (map Fin area)
               = Inr (Fin (sqrt (wsum area (map2 (-) v ref))))"
    by (simp only: L2_norm_Fin fsqrt.simps) simp
  show ?thesis
    unfolding L2_error_def np_subtract_Fin[OF len(1)] sum.case num den fdiv.simps
    using dpos by simp
qed

text \<open>
  C4. For equal-length real arrays \<open>ref\<close> and \<open>approx\<close> and non-negative weights
  \<open>area\<close> with \<open>sum(area_i * ref_i^2) > 0\<close>, \<open>L2_error(ref, approx, area)\<close> is
  \<open>sqrt(sum(area_i * (approx_i - ref_i)^2)) / sqrt(sum(area_i * ref_i^2))\<close>, and it is
  exactly 0 when \<open>approx\<close> is \<open>ref\<close>.
\<close>

theorem L2_error_formula:
  assumes len: "length approx = length ref" "length area = length ref"
    and nonneg: "\<forall>w \<in> set area. 0 \<le> w"
    and pos: "0 < (\<Sum>i = 0..<length ref. area ! i * (ref ! i)\<^sup>2)"
  shows "L2_error (map Fin ref) (map Fin approx) (map Fin area)
           = Inr (Fin (sqrt (\<Sum>i = 0..<length ref. area ! i * (approx ! i - ref ! i)\<^sup>2)
                       / sqrt (\<Sum>i = 0..<length ref. area ! i * (ref ! i)\<^sup>2)))
         \<and> L2_error (map Fin ref) (map Fin ref) (map Fin area) = Inr (Fin 0)"
proof -
  have pos': "0 < wsum area ref"
    using pos by (simp add: wsum_def)
  have w: "wsum area (map2 (-) v ref) = (\<Sum>i = 0..<length ref. area ! i * (v ! i - ref ! i)\<^sup>2)"
    if "length v = length ref" for v
    using that by (simp add: wsum_def)
  have "L2_error (map Fin ref) (map Fin approx) (map Fin area)
          = Inr (Fin (sqrt (wsum area (map2 (-) approx ref)) / sqrt (wsum area ref)))"
    using len nonneg pos' by (rule L2_error_Fin)
  moreover have "L2_error (map Fin ref) (map Fin ref) (map Fin area)
          = Inr (Fin (sqrt (wsum area (map2 (-) ref ref)) / sqrt (wsum area ref)))"
    using len(2) nonneg pos' by (intro L2_error_Fin) simp_all
  ultimately show ?thesis
    by (simp add: w len) (simp add: wsum_def)
qed

theorem L2_error_formula_witness:
  "length [3::real] = length [1::real] \<and> length [4::real] = length [1::real]
   \<and> list_all (\<lambda>w. 0 \<le> w) [4::real]
   \<and> 0 < (\<Sum>i = 0..<length [1::real]. [4::real] ! i * ([1::real] ! i)\<^sup>2)
   \<and> L2_error (map Fin [1]) (map Fin [3]) (map Fin [4]) = Inr (Fin 2)
   \<and> L2_error (map Fin [1]) (map Fin [1]) (map Fin [4]) = Inr (Fin 0)"
  using L2_error_formula [of "[3]" "[1]" "[4]"] by simp

lemma fmul_assoc_Fin: "fmul (fmul (Fin c) a) x = fmul (Fin c) (fmul a x)"
  by (cases a; cases x) (simp_all add: fmul_def mult.assoc)

lemma np_multiply_scale:
  "np_multiply (map (fmul (Fin c)) area) v
     = (case np_multiply area v of Inl e \<Rightarrow> Inl e | Inr ws \<Rightarrow> Inr (map (fmul (Fin c)) ws))"
proof -
  have eq: "map2 fmul (map (fmul (Fin c)) xs) ys = map (fmul (Fin c)) (map2 fmul xs ys)" for xs ys
    by (induction xs arbitrary: ys) (case_tac ys; simp add: fmul_assoc_Fin)+
  have hd_scale: "hd (map (fmul (Fin c)) area) = fmul (Fin c) (hd area)" if "length area = 1"
    using that by (cases area) simp_all
  show ?thesis
    unfolding np_multiply_def broadcast2_def
    by (auto simp: eq hd_scale fmul_assoc_Fin)
qed

lemma np_sum_scale: "np_sum (map (fmul (Fin c)) ws) = fmul (Fin c) (np_sum ws)"
proof (induction ws)
  case Nil
  then show ?case by (simp add: fmul_def)
next
  case (Cons w ws)
  then show ?case
    by (cases w; cases "np_sum ws") (simp_all add: fmul_def fadd_def distrib_left)
qed

lemma fsqrt_scale: "0 < c \<Longrightarrow> fsqrt (fmul (Fin c) s) = fmul (Fin (sqrt c)) (fsqrt s)"
  by (cases s) (auto simp: fmul_def real_sqrt_mult mult_less_0_iff)

lemma L2_norm_scale:
  "0 < c \<Longrightarrow> L2_norm val (map (fmul (Fin c)) area)
     = (case L2_norm val area of Inl e \<Rightarrow> Inl e | Inr n \<Rightarrow> Inr (fmul (Fin (sqrt c)) n))"
  unfolding L2_norm_def np_multiply_scale
  by (simp add: np_sum_scale fsqrt_scale split: sum.splits)

lemma fdiv_scale: "0 < k \<Longrightarrow> fdiv (fmul (Fin k) x) (fmul (Fin k) y) = fdiv x y"
  by (cases x; cases y) (simp_all add: fmul_def)

text \<open>
  C7. For a positive scalar \<open>c\<close> and arrays \<open>ref\<close>, \<open>approx\<close>, \<open>area\<close> whose
  weighted reference norm is a nonzero number, \<open>L2_error(ref, approx, c * area)\<close> equals
  \<open>L2_error(ref, approx, area)\<close>.
\<close>

theorem L2_error_rescale_area:
  assumes "0 < c" and "L2_norm v_ref area = Inr (Fin d)" and "d \<noteq> 0"
  shows "L2_error v_ref v_approx (map (fmul (Fin c)) area) = L2_error v_ref v_approx area"
  using assms(1) unfolding L2_error_def
  by (simp add: L2_norm_scale fdiv_scale split: sum.splits)

theorem L2_error_rescale_area_witness:
  "(0::real) < 2 \<and> L2_norm [Fin 1] [Fin 1] = Inr (Fin 1) \<and> (1::real) \<noteq> 0
   \<and> L2_error [Fin 1] [Fin 3] (map (fmul (Fin 2)) [Fin 1]) = L2_error [Fin 1] [Fin 3] [Fin 1]"
  using L2_error_rescale_area [of 2 "[Fin 1]" "[Fin 1]" 1 "[Fin 3]"]
  by (simp add: L2_norm_def np_multiply_def broadcast2_def fmul_def fadd_def)


section \<open>Properties of the geometry and of the analytical aperture\<close>

text \<open>
  C8. \<open>fracture_2d\<close> returns the empty list when the flag is false, and otherwise exactly
  one \<^verbatim>\<open>2 x 2\<close> array whose endpoints are
  \<open>(length/2, height/2) \<plusminus> a * (sin beta, cos beta)\<close>, so that the fracture is centered
  at the midpoint of the domain.
\<close>

theorem fracture_2d_endpoints:
  "fracture_2d len height a bta False = []
   \<and> fracture_2d len height a bta True
       = [((len / 2 - a * sin bta, len / 2 + a * sin bta),
           (height / 2 - a * cos bta, height / 2 + a * cos bta))]
   \<and> map segment_midpoint (fracture_2d len height a bta True) = [(len / 2, height / 2)]"
  by (simp add: fracture_2d_def Let_def segment_midpoint_def)

theorem fracture_2d_endpoints_witness:
  "fracture_2d 50 50 3 0 False = []
   \<and> fracture_2d 50 50 3 0 True = [((25, 25), (22, 28))]
   \<and> map segment_midpoint (fracture_2d 50 50 3 0 True) = [(25, 25)]"
  using fracture_2d_endpoints [of 50 50 3 0] by (simp add: segment_midpoint_def)

lemma aperture_at_valid:
  assumes "0 < a" and "\<bar>e\<bar> \<le> a"
  shows "aperture_at cons a e = Fin (cons * sqrt (1 - (e / a)\<^sup>2))"
proof -
  have "\<bar>e / a\<bar> \<le> 1" using assms by simp
  then have "(e / a)\<^sup>2 \<le> 1"
    by (simp add: abs_le_square_iff [of "e / a" 1, simplified] power2_eq_square)
  then have "\<not> 1 - (e / a) * (e / a) < 0" by (simp add: power2_eq_square)
  then show ?thesis
    using assms by (simp add: aperture_at_def fmul_def fsub_def power2_eq_square)
qed

lemma aperture_cons_eq:
  "aperture_cons G mu nu a = (if penny G then 2 / pi else 1) * (2 * (1 - nu) / mu * p0 G * a)"
  by (simp add: aperture_cons_def Let_def algebra_simps)

lemma compute_eta_sample:
  "compute_eta (sample_globals bta) (sample_grid z) = Inr [0, 1]"
  by (simp add: compute_eta_def np_take_def sample_grid_def sample_globals_def
      dist_point_pointset_def point_dist_def)

text \<open>
  C1. For a shear modulus \<open>mu > 0\<close>, any Poisson ratio and traction, a half-length
  \<open>a > 0\<close> and arc-length positions \<open>eta\<close> with \<open>|eta| \<le> a\<close>,
  \<open>analytical_displacements\<close> returns the apertures \<open>C * sqrt(1 - (eta/a)^2)\<close> with
  \<open>C = 2*(1-nu)/mu * p0 * a\<close>, multiplied by \<open>2/pi\<close> when the penny flag is set.
\<close>

theorem analytical_aperture_formula:
  assumes eta: "compute_eta G (g_h gb) = Inr eta"
    and mu: "0 < shear_modulus (d_h gb)"
    and a: "0 < a"
    and rng: "\<forall>e \<in> set eta. \<bar>e\<bar> \<le> a"
    and dm: "0 < dim_max gb"
  shows "\<exists>frac_ind. analytical_displacements G gb a
           = Inr (map (\<lambda>e. Fin ((if penny G then 2 / pi else 1)
                                   * (2 * (1 - Poisson (d_h gb)) / shear_modulus (d_h gb) * p0 G * a)
                                   * sqrt (1 - (e / a)\<^sup>2))) eta,
                  frac_ind, eta)"
proof -
  have "map (aperture_at (aperture_cons G (shear_modulus (d_h gb)) (Poisson (d_h gb)) a) a) eta
        = map (\<lambda>e. Fin ((if penny G then 2 / pi else 1)
                                   * (2 * (1 - Poisson (d_h gb)) / shear_modulus (d_h gb) * p0 G * a)
                                   * sqrt (1 - (e / a)\<^sup>2))) eta"
    unfolding aperture_cons_eq using rng a by (simp add: aperture_at_valid)
  then show ?thesis
    using eta mu dm by (simp add: analytical_displacements_def Let_def)
qed

theorem analytical_aperture_formula_witness:
  "compute_eta (sample_globals (pi / 2)) (g_h (sample_bucket 1)) = Inr [0, 1]
   \<and> 0 < shear_modulus (d_h (sample_bucket 1)) \<and> (0::real) < 2
   \<and> list_all (\<lambda>e. \<bar>e\<bar> \<le> 2) [0, 1::real] \<and> 0 < dim_max (sample_bucket 1)
   \<and> (\<exists>frac_ind. analytical_displacements (sample_globals (pi / 2)) (sample_bucket 1) 2
          = Inr ([Fin 4, Fin (4 * sqrt (3 / 4))], frac_ind, [0, 1]))"
proof -
  have e: "compute_eta (sample_globals (pi / 2)) (g_h (sample_bucket 1)) = Inr [0, 1]"
    by (simp add: sample_bucket_def compute_eta_sample)
  have m: "0 < shear_modulus (d_h (sample_bucket 1))" by (simp add: sample_bucket_def)
  have r: "\<forall>e \<in> set [0, 1::real]. \<bar>e\<bar> \<le> 2" by simp
  have d: "0 < dim_max (sample_bucket 1)"
    by (simp add: dim_max_def sample_bucket_def sample_grid_def)
  from analytical_aperture_formula [OF e m _ r d]
  have "\<exists>frac_ind. analytical_displacements (sample_globals (pi / 2)) (sample_bucket 1) 2
          = Inr ([Fin 4, Fin (4 * sqrt (3 / 4))], frac_ind, [0, 1])"
    by (simp add: sample_globals_def sample_bucket_def power2_eq_square)
  with e m d show ?thesis by simp
qed


lemma point_dist_nonneg: "0 \<le> point_dist p q"
  by (cases p; cases q) (simp add: point_dist_def)

lemma np_take_Inr:
  "np_take xs idx = Inr ys \<Longrightarrow> ys = map (nth xs) idx \<and> (\<forall>i \<in> set idx. i < length xs)"
  by (auto simp: np_take_def list_all_iff split: if_splits)

lemma np_take_valid:
  "\<forall>i \<in> set idx. i < length xs \<Longrightarrow> np_take xs idx = Inr (map (nth xs) idx)"
  by (simp add: np_take_def list_all_iff)

lemma compute_eta_Inr:
  assumes "compute_eta G g = Inr eta"
  shows "eta = map (\<lambda>p. point_dist (face_centers g ! fst p) (center G)) (frac_pairs g)"
    and "\<forall>p \<in> set (frac_pairs g). fst p < length (face_centers g)"
    and "cg_bound G"
  using assms
  by (force simp: compute_eta_def dist_point_pointset_def comp_def
      split: sum.splits if_splits dest!: np_take_Inr)+

lemma compute_eta_valid:
  assumes "cg_bound G"
    and "\<forall>p \<in> set (frac_pairs g). fst p < length (face_centers g)"
  shows "compute_eta G g
           = Inr (map (\<lambda>p. point_dist (face_centers g ! fst p) (center G)) (frac_pairs g))"
  using assms by (simp add: compute_eta_def np_take_valid dist_point_pointset_def comp_def)

lemma compute_eta_unbound: "\<not> cg_bound G \<Longrightarrow> compute_eta G g = Inl NameError"
  by (simp add: compute_eta_def)

lemma compute_eta_nonneg: "compute_eta G g = Inr eta \<Longrightarrow> \<forall>e \<in> set eta. 0 \<le> e"
  by (auto dest!: compute_eta_Inr(1) simp: point_dist_nonneg)

lemma interior_mask_abs:
  "\<forall>e \<in> set eta. 0 \<le> e \<Longrightarrow> interior_mask G eta = map (\<lambda>x. \<bar>x\<bar> < 9 / 10 * a_g G) eta"
  by (simp add: interior_mask_def)

lemma analytical_displacements_Inr:
  assumes "analytical_displacements G gb a = Inr (ap, ind, eta)"
  shows "compute_eta G (g_h gb) = Inr eta"
    and "ap = map (aperture_at (aperture_cons G (shear_modulus (d_h gb)) (Poisson (d_h gb)) a) a) eta"
    and "0 < dim_max gb"
  using assms
  by (auto simp: analytical_displacements_def Let_def split: sum.splits if_splits)

text \<open>
  Once the namespace binds \<^verbatim>\<open>cg\<close>, and on a grid whose pairing indexes its faces,
  \<open>compute_eta\<close> returns the Euclidean distance of each paired face center to the
  configured center, so every coordinate is non-negative; hence the filter
  \<open>eta < 0.9*a\<close> is the condition \<open>|eta| < 0.9*a\<close>, and the analytical aperture is
  evaluated at these non-negative coordinates only.
\<close>

lemma compute_eta_distances:
  assumes bound: "cg_bound G"
    and valid: "\<forall>p \<in> set (frac_pairs (g_h gb)). fst p < length (face_centers (g_h gb))"
  shows "\<exists>eta. compute_eta G (g_h gb) = Inr eta
           \<and> eta = map (\<lambda>p. point_dist (face_centers (g_h gb) ! fst p) (center G)) (frac_pairs (g_h gb))
           \<and> (\<forall>e \<in> set eta. 0 \<le> e)
           \<and> interior_mask G eta = map (\<lambda>x. \<bar>x\<bar> < 9 / 10 * a_g G) eta
           \<and> (\<forall>a ap ind eta'. analytical_displacements G gb a = Inr (ap, ind, eta') \<longrightarrow>
                 eta' = eta
                 \<and> ap = map (aperture_at
                              (aperture_cons G (shear_modulus (d_h gb)) (Poisson (d_h gb)) a) a) eta)"
proof -
  let ?eta = "map (\<lambda>p. point_dist (face_centers (g_h gb) ! fst p) (center G)) (frac_pairs (g_h gb))"
  have e: "compute_eta G (g_h gb) = Inr ?eta"
    using bound valid by (rule compute_eta_valid)
  have n: "\<forall>e \<in> set ?eta. 0 \<le> e"
    using e by (rule compute_eta_nonneg)
  have m: "interior_mask G ?eta = map (\<lambda>x. \<bar>x\<bar> < 9 / 10 * a_g G) ?eta"
    using n by (rule interior_mask_abs)
  have "eta' = ?eta \<and> ap = map (aperture_at
                              (aperture_cons G (shear_modulus (d_h gb)) (Poisson (d_h gb)) a) a) ?eta"
    if "analytical_displacements G gb a = Inr (ap, ind, eta')" for a ap ind eta'
    using analytical_displacements_Inr(1,2)[OF that] e by simp
  with e n m show ?thesis by blast
qed

text \<open>
  C10. The claim: for every grid \<open>compute_eta\<close> returns the Euclidean distance of each
  paired fracture-face center to the configured center, so that every coordinate is
  non-negative. The function reads the name \<^verbatim>\<open>cg\<close>, which the script binds nowhere:
  in the namespace that the script's \<^verbatim>\<open>__main__\<close> block sets up, \<open>compute_eta\<close>
  raises NameError for every grid and returns no coordinate.
\<close>

theorem compute_eta_name_error:
  "compute_eta main_globals g = Inl NameError"
  by (simp add: compute_eta_def main_globals_def)

text \<open>
  The exception passes through \<open>analytical_displacements\<close> and \<open>solve\<close>.
\<close>

lemma name_error_propagates:
  assumes "\<not> cg_bound G"
  shows "analytical_displacements G gb a = Inl NameError"
    and "solve ms G gb = Inl NameError"
proof -
  show a: "analytical_displacements G gb a = Inl NameError" for a
    using assms by (simp add: analytical_displacements_def Let_def compute_eta_unbound)
  show "solve ms G gb = Inl NameError"
    by (simp add: solve_def Let_def a)
qed


section \<open>Properties of the displacement extraction\<close>

lemma block_div:
  assumes "0 < d"
  shows "(n * d + d - 1) div d = (n::nat)"
proof -
  obtain m where d: "d = Suc m" using assms by (cases d) simp_all
  have "n * Suc m + Suc m - 1 = m + n * Suc m" by simp
  moreover have "(m + n * Suc m) div Suc m = n + m div Suc m"
    by (rule div_mult_self1) simp
  moreover have "m div Suc m = 0" by simp
  ultimately show ?thesis unfolding d by (simp only:)
qed

lemma length_arange_full:
  "0 < d \<Longrightarrow> length (arange s (s + n * d) d) = n"
  using block_div[of d n] by (simp add: arange_def)

lemma length_arange_last:
  assumes "0 < d"
  shows "length (arange (s + (d - 1)) (s + n * d) d) = n"
proof (cases n)
  case 0
  then show ?thesis using assms by (simp add: arange_def)
next
  case (Suc m)
  have "s + Suc m * d - (s + (d - 1)) + d - 1 = Suc m * d"
    using assms by (simp add: algebra_simps)
  then show ?thesis
    using assms Suc by (simp add: arange_def del: mult_Suc)
qed

lemma nth_arange:
  "k < length (arange s t d) \<Longrightarrow> arange s t d ! k = s + k * d"
  by (simp add: arange_def)

lemma not_isclose_third:
  "\<not> isclose (pi / 3) (pi / 2)" "\<not> isclose (pi / 3) (pi / 4)"
  using pi_ge_two by (simp_all add: isclose_def abs_if)

lemma isclose_refl: "isclose x x"
  by (simp add: isclose_def)

lemma solve_unbound:
  assumes "\<not> isclose (beta G) (pi / 2)" and "\<not> isclose (beta G) (pi / 4)"
    and "analytical_displacements G gb (a_g G) = Inr r"
  shows "solve ms G gb = Inl UnboundLocalError"
  using assms by (cases r) (simp add: solve_def Let_def)

lemma analytical_displacements_sample:
  "\<exists>r. analytical_displacements (sample_globals bta) (sample_bucket 1) 2 = Inr r"
proof -
  have "compute_eta (sample_globals bta) (g_h (sample_bucket 1)) = Inr [0, 1]"
    by (simp add: sample_bucket_def compute_eta_sample)
  then show ?thesis
    by (simp add: analytical_displacements_def Let_def sample_bucket_def dim_max_def sample_grid_def)
qed

text \<open>
  C2. The claim: the numerical aperture of \<open>solve\<close> is the absolute difference of one
  displacement component for beta close to \<open>pi / 2\<close>, and the Euclidean norm of the
  difference of both components for every other inclination. The second branch of
  \<open>solve\<close> is guarded by \<open>isclose(beta, pi / 4)\<close>: at the oblique inclination
  \<open>pi / 3\<close> no branch assigns the aperture, and \<open>solve\<close> raises UnboundLocalError
  (in a namespace that binds \<^verbatim>\<open>cg\<close>; otherwise NameError comes first).
\<close>

theorem solve_oblique_unbound:
  "solve ms (sample_globals (pi / 3)) (sample_bucket 1) = Inl UnboundLocalError"
proof -
  obtain r where "analytical_displacements (sample_globals (pi / 3)) (sample_bucket 1)
                    (a_g (sample_globals (pi / 3))) = Inr r"
    using analytical_displacements_sample [of "pi / 3"] by (auto simp: sample_globals_def)
  moreover have "\<not> isclose (beta (sample_globals (pi / 3))) (pi / 2)"
       "\<not> isclose (beta (sample_globals (pi / 3))) (pi / 4)"
    using not_isclose_third by (simp_all add: sample_globals_def)
  ultimately show ?thesis by (intro solve_unbound)
qed

lemma vertical_aperture_Inr:
  assumes "vertical_aperture u i1 i2 = Inr ap"
  shows "ap = map fabs (map2 fsub (map (nth u) i2) (map (nth u) i1))"
    and "\<forall>i \<in> set i1 \<union> set i2. i < length u"
  using assms
  by (auto simp: vertical_aperture_def split: sum.splits dest!: np_take_Inr)

lemma solve_vertical:
  assumes "isclose (beta G) (pi / 2)" and "solve ms G gb = Inr (ap, apa, u, eta)"
  shows "\<exists>i1 i2. analytical_displacements G gb (a_g G) = Inr (apa, Normal i1 i2, eta)
           \<and> vertical_aperture u i1 i2 = Inr ap \<and> u = ms (g_h gb) (d_h gb)"
  using assms
  by (auto simp: solve_def Let_def split: sum.splits dof_ind.splits)

lemma solve_quarter:
  assumes "\<not> isclose (beta G) (pi / 2)" and "solve ms G gb = Inr (ap, apa, u, eta)"
  shows "isclose (beta G) (pi / 4)
         \<and> (\<exists>f1 x1 f2 x2. analytical_displacements G gb (a_g G) = Inr (apa, WithX f1 x1 f2 x2, eta)
               \<and> oblique_aperture u f1 x1 f2 x2 = Inr ap \<and> u = ms (g_h gb) (d_h gb))"
  using assms
  by (auto simp: solve_def Let_def split: sum.splits dof_ind.splits if_splits)

lemma not_NaN: "x \<noteq> NaN \<Longrightarrow> \<exists>r. x = Fin r"
  by (cases x) simp_all

lemma fabs_cases: "fabs x = NaN \<or> (\<exists>r. fabs x = Fin r \<and> 0 \<le> r)"
  by (cases x) simp_all

lemma fabs_positive_iff: "fgt (fabs x) (Fin 0) \<longleftrightarrow> fabs x \<noteq> NaN \<and> fabs x \<noteq> Fin 0"
  by (cases x) auto

lemma arange_map:
  "length (arange s t d) = n \<Longrightarrow> arange s t d = map (\<lambda>k. s + k * d) [0..<n]"
  by (auto simp: arange_def)

lemma map2_map_map:
  "map2 f (map g xs) (map h xs) = map (\<lambda>x. f (g x) (h x)) xs"
  by (induction xs) simp_all

lemma analytical_displacements_normal:
  assumes "isclose (beta G) (pi / 2)"
    and "analytical_displacements G gb a = Inr (ap, ind, eta)"
  shows "ind = Normal
           (map (\<lambda>k. num_cells (g_h gb) * dim_max gb + (dim_max gb - 1) + k * dim_max gb)
              [0..<length (frac_pairs (g_h gb))])
           (map (\<lambda>k. dim_max gb - 1 + num_cells (g_h gb) * dim_max gb
                        + length (frac_pairs (g_h gb)) * dim_max gb + k * dim_max gb)
              [0..<length (frac_pairs (g_h gb))])"
proof -
  let ?d = "dim_max gb" and ?n = "length (frac_pairs (g_h gb))"
  let ?nf = "num_cells (g_h gb) * ?d"
  have d: "0 < ?d" using analytical_displacements_Inr(3) [OF assms(2)] .
  let ?f1 = "arange (?nf + (?d - 1)) (?nf + ?n * ?d) ?d"
  let ?f2 = "arange (?d - 1 + ?nf + ?n * ?d) (?d - 1 + ?nf + (2 * ?n) * ?d) ?d"
  have "length ?f1 = ?n" using d by (rule length_arange_last)
  then have f1: "?f1 = map (\<lambda>k. ?nf + (?d - 1) + k * ?d) [0..<?n]"
    by (rule arange_map)
  have "length ?f2 = ?n"
  proof -
    have "?d - 1 + ?nf + (2 * ?n) * ?d = (?d - 1 + ?nf + ?n * ?d) + ?n * ?d" by simp
    then show ?thesis by (simp only: length_arange_full [OF d])
  qed
  then have f2: "?f2 = map (\<lambda>k. ?d - 1 + ?nf + ?n * ?d + k * ?d) [0..<?n]"
    by (rule arange_map)
  have "ind = Normal ?f1 ?f2"
    using assms
    by (auto simp: analytical_displacements_def Let_def split: sum.splits if_splits)
  then show ?thesis by (simp only: f1 f2)
qed

text \<open>
  C9. In the branch for beta close to \<open>pi / 2\<close> the aperture that \<open>solve\<close> extracts at
  the \<open>k\<close>-th face pair is the absolute value of the difference of the displacement
  entries at the paired degrees of freedom (the last component on either side, as line
  211 of the script computes it from \<^verbatim>\<open>dof_ind\<close>). So every aperture is NaN or
  a non-negative number, a non-negative number whenever the displacement vector holds no
  NaN, and the assertion \<open>np.all(aperture > 0)\<close> fails exactly when some aperture is NaN or
  exactly zero, never on a negative one.
\<close>

theorem vertical_aperture_nonnegative:
  assumes vert: "isclose (beta G) (pi / 2)"
    and sol: "solve ms G gb = Inr (ap, apa, u, eta)"
  shows "u = ms (g_h gb) (d_h gb)
         \<and> ap = map (\<lambda>k. fabs (fsub
                   (u ! (dim_max gb - 1 + num_cells (g_h gb) * dim_max gb
                          + length (frac_pairs (g_h gb)) * dim_max gb + k * dim_max gb))
                   (u ! (num_cells (g_h gb) * dim_max gb + (dim_max gb - 1) + k * dim_max gb))))
                [0..<length (frac_pairs (g_h gb))]
         \<and> (\<forall>x \<in> set ap. x = NaN \<or> (\<exists>r. x = Fin r \<and> 0 \<le> r))
         \<and> ((\<forall>y \<in> set u. y \<noteq> NaN) \<longrightarrow> (\<forall>x \<in> set ap. \<exists>r. x = Fin r \<and> 0 \<le> r))
         \<and> (\<not> all_positive ap \<longleftrightarrow> (\<exists>x \<in> set ap. x = NaN \<or> x = Fin 0))"
proof -
  obtain i1 i2 where an: "analytical_displacements G gb (a_g G) = Inr (apa, Normal i1 i2, eta)"
    and va: "vertical_aperture u i1 i2 = Inr ap" and u: "u = ms (g_h gb) (d_h gb)"
    using solve_vertical [OF vert sol] by blast
  let ?d = "map2 fsub (map (nth u) i2) (map (nth u) i1)"
  have ap: "ap = map fabs ?d" and idx: "\<forall>i \<in> set i1 \<union> set i2. i < length u"
    using vertical_aperture_Inr [OF va] by blast+
  have i: "i1 = map (\<lambda>k. num_cells (g_h gb) * dim_max gb + (dim_max gb - 1) + k * dim_max gb)
              [0..<length (frac_pairs (g_h gb))]"
      "i2 = map (\<lambda>k. dim_max gb - 1 + num_cells (g_h gb) * dim_max gb
                        + length (frac_pairs (g_h gb)) * dim_max gb + k * dim_max gb)
              [0..<length (frac_pairs (g_h gb))]"
    using analytical_displacements_normal [OF vert an] by simp_all
  have 0: "ap = map (\<lambda>k. fabs (fsub
                   (u ! (dim_max gb - 1 + num_cells (g_h gb) * dim_max gb
                          + length (frac_pairs (g_h gb)) * dim_max gb + k * dim_max gb))
                   (u ! (num_cells (g_h gb) * dim_max gb + (dim_max gb - 1) + k * dim_max gb))))
                [0..<length (frac_pairs (g_h gb))]"
    unfolding ap by (subst i(1), subst i(2)) (simp add: map2_map_map comp_def del: upt.simps)
  have 1: "\<forall>x \<in> set ap. x = NaN \<or> (\<exists>r. x = Fin r \<and> 0 \<le> r)"
    unfolding ap using fabs_cases by auto
  have 3: "\<not> all_positive ap \<longleftrightarrow> (\<exists>x \<in> set ap. x = NaN \<or> x = Fin 0)"
    unfolding ap all_positive_def list_all_iff using fabs_positive_iff by auto
  have 2: "\<forall>x \<in> set ap. \<exists>r. x = Fin r \<and> 0 \<le> r" if fin: "\<forall>y \<in> set u. y \<noteq> NaN"
  proof
    fix x assume "x \<in> set ap"
    then obtain p q where x: "x = fabs (fsub p q)"
        and pq: "(p, q) \<in> set (zip (map (nth u) i2) (map (nth u) i1))"
      unfolding ap by auto
    have "p \<in> set (map (nth u) i2)" "q \<in> set (map (nth u) i1)"
      using pq by (auto dest: set_zip_leftD set_zip_rightD)
    then have "p \<in> set u" "q \<in> set u" using idx by auto
    then have "p \<noteq> NaN" "q \<noteq> NaN" using fin by auto
    then obtain a b where "p = Fin a" "q = Fin b"
      using not_NaN by blast
    then show "\<exists>r. x = Fin r \<and> 0 \<le> r" using x by (simp add: fsub_def)
  qed
  from u 0 1 2 3 show ?thesis by blast
qed

lemma arange_sample: "arange 3 6 2 = [3, 5]" "arange 7 11 2 = [7, 9]"
  by code_simp+

lemma analytical_sample_vertical:
  "analytical_displacements (sample_globals (pi / 2)) (sample_bucket z) 2
     = Inr ([Fin 4, Fin (4 * sqrt (3 / 4))], Normal [3, 5] [7, 9], [0, 1])"
proof -
  have e: "compute_eta (sample_globals (pi / 2)) (g_h (sample_bucket z)) = Inr [0, 1]"
    by (simp add: sample_bucket_def compute_eta_sample)
  have c: "aperture_cons (sample_globals (pi / 2)) 1 0 2 = 4"
    by (simp add: aperture_cons_def sample_globals_def)
  have a: "aperture_at 4 2 0 = Fin 4" "aperture_at 4 2 1 = Fin (4 * sqrt (3 / 4))"
    using aperture_at_valid [of 2 0 4] aperture_at_valid [of 2 1 4]
    by (simp_all add: power2_eq_square)
  have d: "dim_max (sample_bucket z) = 2" "num_cells (g_h (sample_bucket z)) = 1"
       "length (frac_pairs (g_h (sample_bucket z))) = 2"
       "shear_modulus (d_h (sample_bucket z)) = 1" "Poisson (d_h (sample_bucket z)) = 0"
    by (simp_all add: dim_max_def sample_bucket_def sample_grid_def)
  have b: "isclose (beta (sample_globals (pi / 2))) (pi / 2)"
    by (simp add: sample_globals_def isclose_refl)
  show ?thesis
    unfolding analytical_displacements_def Let_def e d
    using b by (simp add: c a arange_sample)
qed

lemma solve_sample:
  "solve sample_solver (sample_globals (pi / 2)) (sample_bucket z)
     = Inr ([Fin 3, Fin \<bar>z - 2\<bar>], [Fin 4, Fin (4 * sqrt (3 / 4))], sample_u z, [0, 1])"
proof -
  have v: "vertical_aperture (sample_u z) [3, 5] [7, 9] = Inr [Fin 3, Fin \<bar>z - 2\<bar>]"
    by (simp add: vertical_aperture_def np_take_def sample_u_def fsub_def)
  have b: "isclose (beta (sample_globals (pi / 2))) (pi / 2)"
       "a_g (sample_globals (pi / 2)) = 2"
    by (simp_all add: sample_globals_def isclose_refl)
  show ?thesis
    unfolding solve_def Let_def b(2) analytical_sample_vertical
    using b(1) by (simp add: v sample_solver_def sample_bucket_def sample_grid_def)
qed

theorem vertical_aperture_nonnegative_witness:
  "isclose (beta (sample_globals (pi / 2))) (pi / 2)
   \<and> solve sample_solver (sample_globals (pi / 2)) (sample_bucket 2)
       = Inr ([Fin 3, Fin 0], [Fin 4, Fin (4 * sqrt (3 / 4))], sample_u 2, [0, 1])
   \<and> sample_u 2 = sample_solver (g_h (sample_bucket 2)) (d_h (sample_bucket 2))
   \<and> [Fin 3, Fin 0] = [fabs (fsub (sample_u 2 ! 7) (sample_u 2 ! 3)),
                        fabs (fsub (sample_u 2 ! 9) (sample_u 2 ! 5))]
   \<and> list_all (\<lambda>x. x = NaN \<or> (\<exists>r. x = Fin r \<and> 0 \<le> r)) [Fin 3, Fin 0]
   \<and> \<not> all_positive [Fin 3, Fin 0]
   \<and> list_ex (\<lambda>x. x = NaN \<or> x = Fin 0) [Fin 3, Fin 0]"
proof -
  have b: "isclose (beta (sample_globals (pi / 2))) (pi / 2)"
    by (simp add: sample_globals_def isclose_refl)
  have s: "solve sample_solver (sample_globals (pi / 2)) (sample_bucket 2)
       = Inr ([Fin 3, Fin 0], [Fin 4, Fin (4 * sqrt (3 / 4))], sample_u 2, [0, 1])"
    using solve_sample [of 2] by simp
  have c3: "sample_u 2 = sample_solver (g_h (sample_bucket 2)) (d_h (sample_bucket 2))"
    by (simp add: sample_solver_def sample_bucket_def sample_grid_def)
  have c4: "[Fin 3, Fin 0] = [fabs (fsub (sample_u 2 ! 7) (sample_u 2 ! 3)),
                        fabs (fsub (sample_u 2 ! 9) (sample_u 2 ! 5))]"
    by (simp add: sample_u_def fsub_def)
  from vertical_aperture_nonnegative [OF b s]
  have "(\<forall>x \<in> set [Fin 3, Fin 0]. x = NaN \<or> (\<exists>r. x = Fin r \<and> 0 \<le> r))
        \<and> (\<not> all_positive [Fin 3, Fin 0] \<longleftrightarrow> (\<exists>x \<in> set [Fin 3, Fin 0]. x = NaN \<or> x = Fin 0))"
    by blast
  then have "list_all (\<lambda>x. x = NaN \<or> (\<exists>r. x = Fin r \<and> 0 \<le> r)) [Fin 3, Fin 0]
   \<and> \<not> all_positive [Fin 3, Fin 0]
   \<and> list_ex (\<lambda>x. x = NaN \<or> x = Fin 0) [Fin 3, Fin 0]"
    by (simp add: list_all_iff list_ex_iff)
  with b s c3 c4 show ?thesis by blast
qed

lemma analytical_displacements_ind:
  assumes "analytical_displacements G gb a = Inr (ap, ind, eta)"
  shows "\<exists>f1 f2 x1 x2.
           length f1 = length (frac_pairs (g_h gb)) \<and> length f2 = length (frac_pairs (g_h gb))
           \<and> length x1 = length (frac_pairs (g_h gb)) \<and> length x2 = length (frac_pairs (g_h gb))
           \<and> ind = (if isclose (beta G) (pi / 2) then Normal f1 f2 else WithX f1 x1 f2 x2)"
proof -
  let ?d = "dim_max gb" and ?n = "length (frac_pairs (g_h gb))"
  let ?nf = "num_cells (g_h gb) * ?d"
  have d: "0 < ?d" using analytical_displacements_Inr(3) [OF assms] .
  let ?f1 = "arange (?nf + (?d - 1)) (?nf + ?n * ?d) ?d"
  let ?f2 = "arange (?d - 1 + ?nf + ?n * ?d) (?d - 1 + ?nf + (2 * ?n) * ?d) ?d"
  let ?x1 = "arange ?nf (?nf + ?n * ?d) ?d"
  let ?x2 = "arange (?nf + ?n * ?d) (?nf + (2 * ?n) * ?d) ?d"
  have "length ?f1 = ?n" using d by (rule length_arange_last)
  moreover have "length ?f2 = ?n"
  proof -
    have "?d - 1 + ?nf + (2 * ?n) * ?d = (?d - 1 + ?nf + ?n * ?d) + ?n * ?d" by simp
    then show ?thesis by (simp only: length_arange_full [OF d])
  qed
  moreover have "length ?x1 = ?n" using d by (rule length_arange_full)
  moreover have "length ?x2 = ?n"
  proof -
    have "?nf + (2 * ?n) * ?d = (?nf + ?n * ?d) + ?n * ?d" by simp
    then show ?thesis by (simp only: length_arange_full [OF d])
  qed
  moreover have "ind = (if isclose (beta G) (pi / 2) then Normal ?f1 ?f2 else WithX ?f1 ?x1 ?f2 ?x2)"
    using assms
    by (auto simp: analytical_displacements_def Let_def split: sum.splits if_splits)
  ultimately show ?thesis by blast
qed

lemma compute_eta_length:
  "compute_eta G g = Inr eta \<Longrightarrow> length eta = length (frac_pairs g)"
  by (auto dest!: compute_eta_Inr(1))

lemma oblique_aperture_length:
  assumes "oblique_aperture u f1 x1 f2 x2 = Inr ap"
  shows "length ap = min (min (length f1) (length f2)) (min (length x1) (length x2))"
  using assms
  by (auto simp: oblique_aperture_def split: sum.splits dest!: np_take_Inr)

lemma solve_Inr:
  assumes "solve ms G gb = Inr (ap, apa, u, eta)"
  shows "compute_eta G (g_h gb) = Inr eta"
    and "length eta = length (frac_pairs (g_h gb))"
    and "length apa = length (frac_pairs (g_h gb))"
    and "length ap = length (frac_pairs (g_h gb))"
proof -
  obtain ind where an: "analytical_displacements G gb (a_g G) = Inr (apa, ind, eta)"
    using assms by (auto simp: solve_def Let_def split: sum.splits if_splits dof_ind.splits)
  show e: "compute_eta G (g_h gb) = Inr eta"
    using analytical_displacements_Inr(1) [OF an] .
  show l: "length eta = length (frac_pairs (g_h gb))"
    using e by (rule compute_eta_length)
  show "length apa = length (frac_pairs (g_h gb))"
    using analytical_displacements_Inr(2) [OF an] l by simp
  obtain f1 f2 x1 x2 where
    len: "length f1 = length (frac_pairs (g_h gb))" "length f2 = length (frac_pairs (g_h gb))"
      "length x1 = length (frac_pairs (g_h gb))" "length x2 = length (frac_pairs (g_h gb))"
    and ind: "ind = (if isclose (beta G) (pi / 2) then Normal f1 f2 else WithX f1 x1 f2 x2)"
    using analytical_displacements_ind [OF an] by blast
  show "length ap = length (frac_pairs (g_h gb))"
  proof (cases "isclose (beta G) (pi / 2)")
    case True
    then have "vertical_aperture u f1 f2 = Inr ap"
      using assms an ind by (auto simp: solve_def Let_def split: sum.splits)
    from vertical_aperture_Inr(1) [OF this] len show ?thesis by simp
  next
    case False
    then have "oblique_aperture u f1 x1 f2 x2 = Inr ap"
      using assms an ind by (auto simp: solve_def Let_def split: sum.splits if_splits)
    from oblique_aperture_length [OF this] len show ?thesis by simp
  qed
qed


section \<open>Properties of the convergence loop\<close>

lemma L2_norm_total:
  "length area = length val \<Longrightarrow> \<exists>x. L2_norm val area = Inr x"
  by (simp add: L2_norm_def np_multiply_def broadcast2_same_length)

lemma np_subtract_length:
  "length v = length w \<Longrightarrow> \<exists>d. np_subtract v w = Inr d \<and> length d = length w"
  by (simp add: np_subtract_def broadcast2_same_length)

lemma L2_error_total:
  assumes "length v = length r" and "length area = length r"
  shows "\<exists>x. L2_error r v area = Inr x"
proof -
  obtain d where d: "np_subtract v r = Inr d" "length d = length r"
    using np_subtract_length [OF assms(1)] by blast
  obtain n1 where n1: "L2_norm d area = Inr n1"
    using L2_norm_total [of area d] assms(2) d(2) by auto
  obtain n2 where n2: "L2_norm r area = Inr n2"
    using L2_norm_total [of area r] assms(2) by auto
  show ?thesis by (simp add: L2_error_def d(1) n1 n2)
qed

lemma np_max_total: "xs \<noteq> [] \<Longrightarrow> \<exists>m. np_max xs = Inr m"
  by (cases xs) (simp_all add: np_max_def)

lemma pointwise_error_total:
  assumes "length apa = length ap" and "ap \<noteq> []"
  shows "\<exists>e. pointwise_error apa ap = Inr e \<and> e \<noteq> []"
proof -
  obtain d where d: "np_subtract apa ap = Inr d" "length d = length ap"
    using np_subtract_length [OF assms(1)] by blast
  have "apa \<noteq> []" using assms by auto
  then obtain m where m: "np_max apa = Inr m"
    using np_max_total by blast
  have "d \<noteq> []" using d(2) assms(2) by auto
  then show ?thesis by (simp add: pointwise_error_def d(1) m)
qed

lemma mean_error_total:
  assumes "length apa = length ap" and "length areas = length ap" and "ap \<noteq> []"
  shows "\<exists>x. mean_error apa ap areas = Inr x"
proof -
  obtain d where d: "np_subtract apa ap = Inr d" "length d = length ap"
    using np_subtract_length [OF assms(1)] by blast
  obtain n where n: "L2_norm d areas = Inr n"
    using L2_norm_total [of areas d] assms(2) d(2) by auto
  have "apa \<noteq> []" using assms by auto
  then obtain m where m: "np_max apa = Inr m"
    using np_max_total by blast
  show ?thesis by (simp add: mean_error_def d(1) n m)
qed

lemma np_select_sub_array:
  "length eta = length xs \<Longrightarrow> np_select (map P eta) xs = Inr (sub_array P eta xs)"
proof -
  have "map snd (filter fst (zip (map P eta) xs)) = map snd (filter (\<lambda>p. P (fst p)) (zip eta xs))"
    by (induction eta arbitrary: xs) (case_tac xs; simp)+
  then show "length eta = length xs \<Longrightarrow> ?thesis"
    by (simp add: np_select_def sub_array_def)
qed

lemma length_sub_array:
  "length eta = length xs \<Longrightarrow> length (sub_array P eta xs) = length (filter P eta)"
  unfolding sub_array_def
  by (induction eta xs rule: list_induct2) simp_all

lemma interior_error_sub_array:
  assumes "length apa = length eta" "length ap = length eta" "length areas = length eta"
  shows "interior_error (map P eta) apa ap areas
           = L2_error (sub_array P eta apa) (sub_array P eta ap) (sub_array P eta areas)"
  using assms by (simp add: interior_error_def np_select_sub_array)

lemma interior_error_total:
  assumes "length apa = length eta" "length ap = length eta" "length areas = length eta"
  shows "\<exists>x. interior_error (map P eta) apa ap areas = Inr x"
  unfolding interior_error_sub_array [OF assms]
  using assms by (intro L2_error_total) (simp_all add: length_sub_array)

lemma loop_body_assertion:
  assumes "solve ms G (mb item) = Inr (ap, apa, u, eta)" and "\<not> all_positive ap"
  shows "loop_body mb ms G st item = Raised AssertionError st"
  using assms by (simp add: loop_body_def Let_def)

lemma loop_body_Done:
  assumes sol: "solve ms G (mb item) = Inr (ap, apa, u, eta)"
    and pos: "all_positive ap"
    and ne: "frac_pairs (g_h (mb item)) \<noteq> []"
    and ar: "np_take (face_areas (g_h (mb item))) (map fst (frac_pairs (g_h (mb item)))) = Inr areas_r"
  shows "\<exists>err err_I err_max err_el.
           interior_error (interior_mask G eta) apa ap (map Fin areas_r) = Inr err_el
           \<and> loop_body mb ms G st item
               = Done (st\<lparr>errors := errors st @ [err], errors_I := errors_I st @ [err_I],
                         errors_max := errors_max st @ [err_max],
                         errors_el := errors_el st @ [err_el],
                         apertures := apertures st @ [ap],
                         apertures_a := apertures_a st @ [apa],
                         fracture_cells := fracture_cells st @ [frac_num_cells (mb item)]\<rparr>)"
proof -
  let ?n = "length (frac_pairs (g_h (mb item)))"
  let ?areas = "map Fin areas_r"
  have len: "length eta = ?n" "length apa = ?n" "length ap = ?n"
    using solve_Inr(2-4) [OF sol] by auto
  have la: "length ?areas = ?n"
    using np_take_Inr [OF ar] by simp
  have ap_ne: "ap \<noteq> []" using len(3) ne by auto
  obtain e where e: "pointwise_error apa ap = Inr e" "e \<noteq> []"
    using pointwise_error_total [of apa ap] len ap_ne by auto
  obtain err where err: "L2_error apa ap ?areas = Inr err"
    using L2_error_total [of ap apa ?areas] len la by auto
  obtain err_I where err_I: "mean_error apa ap ?areas = Inr err_I"
    using mean_error_total [of apa ap ?areas] len la ap_ne by auto
  obtain err_max where err_max: "np_max e = Inr err_max"
    using np_max_total [OF e(2)] by blast
  obtain err_el where err_el:
    "interior_error (interior_mask G eta) apa ap ?areas = Inr err_el"
    unfolding interior_mask_def
    using interior_error_total [of apa eta ap ?areas] len la by auto
  have "loop_body mb ms G st item
          = Done (st\<lparr>errors := errors st @ [err], errors_I := errors_I st @ [err_I],
                         errors_max := errors_max st @ [err_max],
                         errors_el := errors_el st @ [err_el],
                         apertures := apertures st @ [ap],
                         apertures_a := apertures_a st @ [apa],
                         fracture_cells := fracture_cells st @ [frac_num_cells (mb item)]\<rparr>)"
    unfolding loop_body_def Let_def sol
    using pos by (simp add: ar e(1) err err_I err_max err_el)
  with err_el show ?thesis by blast
qed

text \<open>
  C5. In an iteration that completes, the entry appended to \<open>errors_el\<close> is
  \<open>L2_error\<close> of the sub-arrays of the analytical aperture, the numerical aperture and
  the face areas at the fracture cells with \<open>|eta| < 0.9*a\<close>. An iteration completes when
  \<open>solve\<close> returns strictly positive apertures on a grid with at least one face pair whose
  pairing indexes the face areas.
\<close>

theorem interior_error_appended:
  assumes sol: "solve ms G (mb item) = Inr (ap, apa, u, eta)"
    and pos: "all_positive ap"
    and ne: "frac_pairs (g_h (mb item)) \<noteq> []"
    and ar: "np_take (face_areas (g_h (mb item))) (map fst (frac_pairs (g_h (mb item)))) = Inr areas_r"
  shows "\<exists>st' v. loop_body mb ms G st item = Done st'
           \<and> errors_el st' = errors_el st @ [v]
           \<and> L2_error (sub_array (\<lambda>e. \<bar>e\<bar> < 9 / 10 * a_g G) eta apa)
                       (sub_array (\<lambda>e. \<bar>e\<bar> < 9 / 10 * a_g G) eta ap)
                       (sub_array (\<lambda>e. \<bar>e\<bar> < 9 / 10 * a_g G) eta (map Fin areas_r)) = Inr v"
proof -
  let ?n = "length (frac_pairs (g_h (mb item)))"
  have len: "length eta = ?n" "length apa = ?n" "length ap = ?n"
    using solve_Inr(2-4) [OF sol] by auto
  have la: "length (map Fin areas_r) = ?n"
    using np_take_Inr [OF ar] by simp
  have "\<forall>e \<in> set eta. 0 \<le> e"
    using solve_Inr(1) [OF sol] by (rule compute_eta_nonneg)
  then have m: "interior_mask G eta = map (\<lambda>e. \<bar>e\<bar> < 9 / 10 * a_g G) eta"
    by (rule interior_mask_abs)
  obtain err err_I err_max v where
    v: "interior_error (interior_mask G eta) apa ap (map Fin areas_r) = Inr v"
    and d: "loop_body mb ms G st item
               = Done (st\<lparr>errors := errors st @ [err], errors_I := errors_I st @ [err_I],
                         errors_max := errors_max st @ [err_max],
                         errors_el := errors_el st @ [v],
                         apertures := apertures st @ [ap],
                         apertures_a := apertures_a st @ [apa],
                         fracture_cells := fracture_cells st @ [frac_num_cells (mb item)]\<rparr>)"
    using loop_body_Done [where mb = mb and item = item and st = st, OF sol pos ne ar] by blast
  have "L2_error (sub_array (\<lambda>e. \<bar>e\<bar> < 9 / 10 * a_g G) eta apa)
                       (sub_array (\<lambda>e. \<bar>e\<bar> < 9 / 10 * a_g G) eta ap)
                       (sub_array (\<lambda>e. \<bar>e\<bar> < 9 / 10 * a_g G) eta (map Fin areas_r)) = Inr v"
    using v unfolding m
    by (subst (asm) interior_error_sub_array) (simp_all only: len la)
  with d show ?thesis by simp
qed

lemma run_loop_append:
  "run_loop mb ms G st (xs @ ys)
     = (case run_loop mb ms G st xs of
          Done st' \<Rightarrow> run_loop mb ms G st' ys
        | Raised x st' \<Rightarrow> Raised x st')"
  by (induction xs arbitrary: st) (simp_all split: outcome.splits)

text \<open>
  C3. When the earlier resolutions have completed with the records \<open>st\<close> and some
  aperture extracted at the next resolution is not strictly positive (NaN included), the
  iteration raises AssertionError with the records still \<open>st\<close>: no error norm of this
  resolution is appended, and the whole loop ends with that exception whatever
  resolutions follow.
\<close>

theorem assertion_aborts_run:
  assumes earlier: "run_loop mb ms G st0 pre = Done st"
    and sol: "solve ms G (mb item) = Inr (ap, apa, u, eta)"
    and bad: "\<exists>x \<in> set ap. \<not> fgt x (Fin 0)"
  shows "loop_body mb ms G st item = Raised AssertionError st
         \<and> run_loop mb ms G st0 (pre @ item # post) = Raised AssertionError st"
proof -
  have "\<not> all_positive ap"
    using bad by (simp add: all_positive_def list_all_iff)
  then have b: "loop_body mb ms G st item = Raised AssertionError st"
    using sol by (intro loop_body_assertion)
  then show ?thesis
    by (simp add: run_loop_append earlier)
qed

lemma sample_areas:
  "np_take (face_areas (g_h (sample_bucket z))) (map fst (frac_pairs (g_h (sample_bucket z))))
     = Inr [z, 1]"
  by (simp add: np_take_def sample_bucket_def sample_grid_def)

lemma sample_pairs: "frac_pairs (g_h (sample_bucket z)) \<noteq> []"
  by (simp add: sample_bucket_def sample_grid_def)

theorem interior_error_appended_witness:
  "solve sample_solver (sample_globals (pi / 2)) (sample_bucket 4)
     = Inr ([Fin 3, Fin 2], [Fin 4, Fin (4 * sqrt (3 / 4))], sample_u 4, [0, 1])
   \<and> all_positive [Fin 3, Fin 2]
   \<and> (\<exists>st' v. loop_body sample_bucket sample_solver (sample_globals (pi / 2)) empty_records 4
                  = Done st'
          \<and> errors_el st' = [v]
          \<and> L2_error [Fin 4, Fin (4 * sqrt (3 / 4))] [Fin 3, Fin 2] [Fin 4, Fin 1] = Inr v)"
proof -
  have s: "solve sample_solver (sample_globals (pi / 2)) (sample_bucket 4)
     = Inr ([Fin 3, Fin 2], [Fin 4, Fin (4 * sqrt (3 / 4))], sample_u 4, [0, 1])"
    using solve_sample [of 4] by simp
  have p: "all_positive [Fin 3, Fin 2]"
    by (simp add: all_positive_def)
  from interior_error_appended [where mb = sample_bucket and item = 4 and st = empty_records,
      OF s p sample_pairs sample_areas]
  have "\<exists>st' v. loop_body sample_bucket sample_solver (sample_globals (pi / 2)) empty_records 4
                  = Done st'
          \<and> errors_el st' = [v]
          \<and> L2_error [Fin 4, Fin (4 * sqrt (3 / 4))] [Fin 3, Fin 2] [Fin 4, Fin 1] = Inr v"
    by (simp add: sub_array_def sample_globals_def empty_records_def)
  with s p show ?thesis by blast
qed

theorem assertion_aborts_run_witness:
  "\<exists>st. run_loop sample_bucket sample_solver (sample_globals (pi / 2)) empty_records [4] = Done st
        \<and> solve sample_solver (sample_globals (pi / 2)) (sample_bucket 2)
             = Inr ([Fin 3, Fin 0], [Fin 4, Fin (4 * sqrt (3 / 4))], sample_u 2, [0, 1])
        \<and> \<not> fgt (Fin 0) (Fin 0)
        \<and> loop_body sample_bucket sample_solver (sample_globals (pi / 2)) st 2
             = Raised AssertionError st
        \<and> run_loop sample_bucket sample_solver (sample_globals (pi / 2)) empty_records [4, 2, 4]
             = Raised AssertionError st"
proof -
  have s4: "solve sample_solver (sample_globals (pi / 2)) (sample_bucket 4)
     = Inr ([Fin 3, Fin 2], [Fin 4, Fin (4 * sqrt (3 / 4))], sample_u 4, [0, 1])"
    using solve_sample [of 4] by simp
  have p: "all_positive [Fin 3, Fin 2]"
    by (simp add: all_positive_def)
  obtain st where
    "loop_body sample_bucket sample_solver (sample_globals (pi / 2)) empty_records 4 = Done st"
    using loop_body_Done [where mb = sample_bucket and item = 4 and st = empty_records,
        OF s4 p sample_pairs sample_areas] by blast
  then have pre: "run_loop sample_bucket sample_solver (sample_globals (pi / 2)) empty_records [4]
                    = Done st"
    by simp
  have s2: "solve sample_solver (sample_globals (pi / 2)) (sample_bucket 2)
             = Inr ([Fin 3, Fin 0], [Fin 4, Fin (4 * sqrt (3 / 4))], sample_u 2, [0, 1])"
    using solve_sample [of 2] by simp
  have bad: "\<exists>x \<in> set [Fin 3, Fin 0]. \<not> fgt x (Fin 0)" by simp
  from assertion_aborts_run [where mb = sample_bucket and item = 2 and post = "[4]", OF pre s2 bad]
  have "loop_body sample_bucket sample_solver (sample_globals (pi / 2)) st 2
             = Raised AssertionError st
        \<and> run_loop sample_bucket sample_solver (sample_globals (pi / 2)) empty_records [4, 2, 4]
             = Raised AssertionError st"
    by simp
  with pre s2 show ?thesis by auto
qed



section \<open>Interior error against global error\<close>

lemma interior_le_global_sums:
  fixes x y :: "nat \<Rightarrow> real" and I :: "nat \<Rightarrow> bool"
  assumes nonneg: "\<forall>k<n. 0 \<le> x k \<and> 0 \<le> y k"
    and cross: "\<forall>i<n. \<forall>t<n. I i \<longrightarrow> \<not> I t \<longrightarrow> x i * y t \<le> x t * y i"
    and pos: "0 < (\<Sum>k = 0..<n. if I k then y k else 0)"
  shows "(\<Sum>k = 0..<n. if I k then x k else 0) / (\<Sum>k = 0..<n. if I k then y k else 0)
           \<le> (\<Sum>k = 0..<n. x k) / (\<Sum>k = 0..<n. y k)"
proof -
  let ?AI = "\<Sum>k = 0..<n. if I k then x k else 0"
  let ?BI = "\<Sum>k = 0..<n. if I k then y k else 0"
  let ?AT = "\<Sum>k = 0..<n. if I k then 0 else x k"
  let ?BT = "\<Sum>k = 0..<n. if I k then 0 else y k"
  have A: "(\<Sum>k = 0..<n. x k) = ?AI + ?AT"
    unfolding sum.distrib [symmetric] by (intro sum.cong) auto
  have B: "(\<Sum>k = 0..<n. y k) = ?BI + ?BT"
    unfolding sum.distrib [symmetric] by (intro sum.cong) auto
  have BT: "0 \<le> ?BT"
    using nonneg by (intro sum_nonneg) auto
  have "?AI * ?BT = (\<Sum>i = 0..<n. \<Sum>t = 0..<n.
                        (if I i then x i else 0) * (if I t then 0 else y t))"
    by (rule sum_product)
  also have "\<dots> \<le> (\<Sum>i = 0..<n. \<Sum>t = 0..<n.
                        (if I i then y i else 0) * (if I t then 0 else x t))"
    using cross by (intro sum_mono) (auto simp: mult.commute)
  also have "\<dots> = ?BI * ?AT"
    by (rule sum_product [symmetric])
  finally have c: "?AI * ?BT \<le> ?BI * ?AT" .
  have "?AI * (?BI + ?BT) \<le> (?AI + ?AT) * ?BI"
    using c by (simp add: algebra_simps)
  moreover have "0 < ?BI + ?BT" using pos BT by simp
  ultimately have "?AI / ?BI \<le> (?AI + ?AT) / (?BI + ?BT)"
    using pos by (simp add: field_simps)
  then show ?thesis by (simp only: A B)
qed

lemma sub_array_map: "sub_array P eta (map f xs) = map f (sub_array P eta xs)"
  unfolding sub_array_def
  by (induction eta arbitrary: xs) (case_tac xs; simp)+

lemma sub_array_map2:
  assumes "length eta = length xs" and "length xs = length ys"
  shows "map2 f (sub_array P eta xs) (sub_array P eta ys) = sub_array P eta (map2 f xs ys)"
  using assms
  by (induction eta xs ys rule: list_induct3) (simp_all add: sub_array_def)

lemma sub_array_subset: "set (sub_array P eta xs) \<subseteq> set xs"
  unfolding sub_array_def by (auto dest: set_zip_rightD)

lemma sum_list_sub_array:
  fixes zs :: "real list"
  shows "length eta = length zs \<Longrightarrow>
     sum_list (sub_array P eta zs) = (\<Sum>k = 0..<length eta. if P (eta ! k) then zs ! k else 0)"
proof (induction eta zs rule: list_induct2)
  case Nil
  then show ?case by (simp add: sub_array_def)
next
  case (Cons e eta z zs)
  have "sum_list (sub_array P (e # eta) (z # zs))
          = (if P e then z else 0) + sum_list (sub_array P eta zs)"
    by (simp add: sub_array_def)
  then show ?case
    using Cons.IH
    by (simp add: sum.atLeast0_lessThan_Suc_shift del: sum.op_ivl_Suc cong: if_cong)
qed

lemma wsum_sum_list:
  "length area = length val \<Longrightarrow> wsum area val = sum_list (map2 (\<lambda>w x. w * x\<^sup>2) area val)"
  by (simp add: wsum_def sum_list_map2_nth)

lemma wsum_sub_array:
  assumes "length eta = length area" and "length eta = length val"
  shows "wsum (sub_array P eta area) (sub_array P eta val)
           = (\<Sum>k = 0..<length eta. if P (eta ! k) then area ! k * (val ! k)\<^sup>2 else 0)"
proof -
  have "length (sub_array P eta area) = length (sub_array P eta val)"
    using assms by (simp add: length_sub_array)
  then have "wsum (sub_array P eta area) (sub_array P eta val)
          = sum_list (sub_array P eta (map2 (\<lambda>w x. w * x\<^sup>2) area val))"
    using assms by (simp add: wsum_sum_list sub_array_map2)
  also have "\<dots> = (\<Sum>k = 0..<length eta.
                        if P (eta ! k) then map2 (\<lambda>w x. w * x\<^sup>2) area val ! k else 0)"
    using assms by (intro sum_list_sub_array) simp
  also have "\<dots> = (\<Sum>k = 0..<length eta. if P (eta ! k) then area ! k * (val ! k)\<^sup>2 else 0)"
    using assms by (intro sum.cong) auto
  finally show ?thesis .
qed

lemma interior_le_global_real:
  fixes eta ref approx area :: "real list" and lim :: real
  assumes len: "length approx = length eta" "length area = length eta" "length ref = length eta"
    and nonneg: "\<forall>w \<in> set area. 0 \<le> w"
    and cross: "\<forall>i<length eta. \<forall>t<length eta. eta ! i < lim \<longrightarrow> \<not> eta ! t < lim \<longrightarrow>
        (approx ! i - ref ! i)\<^sup>2 * (ref ! t)\<^sup>2 \<le> (approx ! t - ref ! t)\<^sup>2 * (ref ! i)\<^sup>2"
    and pos: "0 < (\<Sum>k = 0..<length eta. if eta ! k < lim then area ! k * (ref ! k)\<^sup>2 else 0)"
  shows "\<exists>ei eg.
           L2_error (map Fin (sub_array (\<lambda>e. e < lim) eta ref))
                    (map Fin (sub_array (\<lambda>e. e < lim) eta approx))
                    (map Fin (sub_array (\<lambda>e. e < lim) eta area)) = Inr (Fin ei)
           \<and> L2_error (map Fin ref) (map Fin approx) (map Fin area) = Inr (Fin eg)
           \<and> ei \<le> eg"
proof -
  let ?n = "length eta"
  let ?P = "\<lambda>e. e < lim"
  let ?x = "\<lambda>k. area ! k * (approx ! k - ref ! k)\<^sup>2"
  let ?y = "\<lambda>k. area ! k * (ref ! k)\<^sup>2"
  let ?AI = "\<Sum>k = 0..<?n. if eta ! k < lim then ?x k else 0"
  let ?BI = "\<Sum>k = 0..<?n. if eta ! k < lim then ?y k else 0"
  let ?A = "\<Sum>k = 0..<?n. ?x k"
  let ?B = "\<Sum>k = 0..<?n. ?y k"
  have w: "0 \<le> area ! k" if "k < ?n" for k
    using nonneg len(2) that by (simp add: all_set_conv_all_nth)
  have xy: "\<forall>k<?n. 0 \<le> ?x k \<and> 0 \<le> ?y k"
    using w by simp
  have cr: "\<forall>i<?n. \<forall>t<?n. eta ! i < lim \<longrightarrow> \<not> eta ! t < lim \<longrightarrow> ?x i * ?y t \<le> ?x t * ?y i"
  proof (intro allI impI)
    fix i t assume it: "i < ?n" "t < ?n" "eta ! i < lim" "\<not> eta ! t < lim"
    have "(area ! i * area ! t) * ((approx ! i - ref ! i)\<^sup>2 * (ref ! t)\<^sup>2)
            \<le> (area ! i * area ! t) * ((approx ! t - ref ! t)\<^sup>2 * (ref ! i)\<^sup>2)"
      using cross it w [OF it(1)] w [OF it(2)] by (intro mult_left_mono) simp_all
    then show "?x i * ?y t \<le> ?x t * ?y i"
      by (simp add: algebra_simps)
  qed
  have q: "?AI / ?BI \<le> ?A / ?B"
    using xy cr pos by (rule interior_le_global_sums)
  have BIB: "?BI \<le> ?B"
    using xy by (intro sum_mono) auto
  have AI0: "0 \<le> ?AI"
    using xy by (intro sum_nonneg) auto
  \<comment> \<open>the global error\<close>
  have gB: "wsum area ref = ?B" using len by (simp add: wsum_def)
  have gA: "wsum area (map2 (-) approx ref) = ?A" using len by (simp add: wsum_def)
  have g: "L2_error (map Fin ref) (map Fin approx) (map Fin area)
             = Inr (Fin (sqrt ?A / sqrt ?B))"
    using L2_error_Fin [of approx ref area] len nonneg pos BIB by (simp add: gA gB)
  \<comment> \<open>the interior error\<close>
  have iB: "wsum (sub_array ?P eta area) (sub_array ?P eta ref) = ?BI"
    using len by (simp add: wsum_sub_array)
  have iA: "wsum (sub_array ?P eta area) (map2 (-) (sub_array ?P eta approx) (sub_array ?P eta ref))
              = ?AI"
    using len by (simp add: sub_array_map2 wsum_sub_array cong: if_cong)
  have inn: "\<forall>w \<in> set (sub_array ?P eta area). 0 \<le> w"
    using nonneg sub_array_subset [of ?P eta area] by blast
  have i: "L2_error (map Fin (sub_array ?P eta ref)) (map Fin (sub_array ?P eta approx))
                    (map Fin (sub_array ?P eta area)) = Inr (Fin (sqrt ?AI / sqrt ?BI))"
    using L2_error_Fin [of "sub_array ?P eta approx" "sub_array ?P eta ref" "sub_array ?P eta area"]
      len inn pos by (simp add: iA iB length_sub_array)
  have "sqrt ?AI / sqrt ?BI \<le> sqrt ?A / sqrt ?B"
    using q by (simp add: real_sqrt_divide [symmetric])
  with g i show ?thesis by blast
qed

lemma profile_square:
  assumes "0 < a" and "0 \<le> e" and "e \<le> a"
  shows "(cons * sqrt (1 - (e / a)\<^sup>2))\<^sup>2 = cons\<^sup>2 * (1 - (e / a)\<^sup>2)"
proof -
  have "e / a \<le> 1" "0 \<le> e / a" using assms by simp_all
  then have "(e / a)\<^sup>2 \<le> 1" by (simp add: power_le_one)
  then show ?thesis by (simp add: power_mult_distrib)
qed

text \<open>
  The analytical aperture profile is no larger at the tips than in the interior. With it
  as the reference, at coordinates \<open>0 \<le> eta \<le> a\<close> and with a nonzero constant, it is
  enough that every cell of the tip region has an absolute error at least as large as
  every interior cell.
\<close>

lemma analytical_profile_interior_le_global:
  assumes len: "length approx = length eta" "length area = length eta"
    and a: "0 < a_g G" and cons: "cons \<noteq> 0"
    and rng: "\<forall>e \<in> set eta. 0 \<le> e \<and> e \<le> a_g G"
    and nonneg: "\<forall>w \<in> set area. 0 \<le> w"
    and ref: "ref = map (\<lambda>e. cons * sqrt (1 - (e / a_g G)\<^sup>2)) eta"
    and inner: "\<exists>k<length eta. eta ! k < 9 / 10 * a_g G \<and> 0 < area ! k"
    and tips: "\<forall>i<length eta. \<forall>t<length eta.
                 eta ! i < 9 / 10 * a_g G \<longrightarrow> 9 / 10 * a_g G \<le> eta ! t \<longrightarrow>
                 \<bar>approx ! i - ref ! i\<bar> \<le> \<bar>approx ! t - ref ! t\<bar>"
  shows "map (aperture_at cons (a_g G)) eta = map Fin ref
         \<and> (\<exists>ei eg.
               interior_error (interior_mask G eta) (map Fin ref) (map Fin approx) (map Fin area)
                 = Inr (Fin ei)
             \<and> L2_error (map Fin ref) (map Fin approx) (map Fin area) = Inr (Fin eg)
             \<and> ei \<le> eg)"
proof -
  let ?a = "a_g G" and ?n = "length eta"
  let ?lim = "9 / 10 * a_g G"
  have lr: "length ref = ?n" by (simp add: ref)
  have e: "0 \<le> eta ! k" "eta ! k \<le> ?a" if "k < ?n" for k
    using rng that by (simp_all add: all_set_conv_all_nth)
  have r2: "(ref ! k)\<^sup>2 = cons\<^sup>2 * (1 - (eta ! k / ?a)\<^sup>2)" if "k < ?n" for k
    using that profile_square [OF a e [OF that]] by (simp add: ref)
  have first: "map (aperture_at cons ?a) eta = map Fin ref"
    unfolding ref using rng a by (simp add: aperture_at_valid)
  have cross: "\<forall>i<?n. \<forall>t<?n. eta ! i < ?lim \<longrightarrow> \<not> eta ! t < ?lim \<longrightarrow>
        (approx ! i - ref ! i)\<^sup>2 * (ref ! t)\<^sup>2 \<le> (approx ! t - ref ! t)\<^sup>2 * (ref ! i)\<^sup>2"
  proof (intro allI impI)
    fix i t assume it: "i < ?n" "t < ?n" "eta ! i < ?lim" "\<not> eta ! t < ?lim"
    have "\<bar>approx ! i - ref ! i\<bar> \<le> \<bar>approx ! t - ref ! t\<bar>"
      using tips it by simp
    then have d: "(approx ! i - ref ! i)\<^sup>2 \<le> (approx ! t - ref ! t)\<^sup>2"
      by (simp add: abs_le_square_iff)
    have "eta ! i \<le> eta ! t" using it by simp
    then have "eta ! i / ?a \<le> eta ! t / ?a" using a by (simp add: divide_right_mono)
    moreover have "0 \<le> eta ! i / ?a" using e(1) [OF it(1)] a by simp
    ultimately have "(eta ! i / ?a)\<^sup>2 \<le> (eta ! t / ?a)\<^sup>2"
      by (rule power_mono)
    then have "cons\<^sup>2 * (1 - (eta ! t / ?a)\<^sup>2) \<le> cons\<^sup>2 * (1 - (eta ! i / ?a)\<^sup>2)"
      by (intro mult_left_mono) simp_all
    then have r: "(ref ! t)\<^sup>2 \<le> (ref ! i)\<^sup>2"
      using r2 it by simp
    show "(approx ! i - ref ! i)\<^sup>2 * (ref ! t)\<^sup>2 \<le> (approx ! t - ref ! t)\<^sup>2 * (ref ! i)\<^sup>2"
      using d r by (intro mult_mono) simp_all
  qed
  have pos: "0 < (\<Sum>k = 0..<?n. if eta ! k < ?lim then area ! k * (ref ! k)\<^sup>2 else 0)"
  proof -
    obtain k where k: "k < ?n" "eta ! k < ?lim" "0 < area ! k"
      using inner by blast
    have "eta ! k / ?a < 9 / 10" using k(2) a by (simp add: field_simps)
    moreover have "0 \<le> eta ! k / ?a" using e(1) [OF k(1)] a by simp
    ultimately have "(eta ! k / ?a)\<^sup>2 < (9 / 10)\<^sup>2"
      by (intro power_strict_mono) simp_all
    moreover have "((9::real) / 10)\<^sup>2 < 1" by (simp add: power2_eq_square)
    ultimately have "(eta ! k / ?a)\<^sup>2 < 1" by (rule less_trans)
    then have "0 < cons\<^sup>2 * (1 - (eta ! k / ?a)\<^sup>2)"
      using cons by simp
    then have "0 < area ! k * (ref ! k)\<^sup>2"
      using k r2 by simp
    then have t: "0 < (if eta ! k < ?lim then area ! k * (ref ! k)\<^sup>2 else 0)"
      using k(2) by simp
    have w: "0 \<le> area ! j" if "j < ?n" for j
      using nonneg len(2) that by (simp add: all_set_conv_all_nth)
    show ?thesis
      by (rule sum_pos2 [where i = k]) (use k(1) t w in auto)
  qed
  obtain ei eg where
    i: "L2_error (map Fin (sub_array (\<lambda>e. e < ?lim) eta ref))
                    (map Fin (sub_array (\<lambda>e. e < ?lim) eta approx))
                    (map Fin (sub_array (\<lambda>e. e < ?lim) eta area)) = Inr (Fin ei)"
    and g: "L2_error (map Fin ref) (map Fin approx) (map Fin area) = Inr (Fin eg)"
    and le: "ei \<le> eg"
    using interior_le_global_real [OF len lr nonneg cross pos] by blast
  have "interior_error (interior_mask G eta) (map Fin ref) (map Fin approx) (map Fin area)
          = Inr (Fin ei)"
    unfolding interior_mask_def
    using i len lr by (simp add: interior_error_sub_array sub_array_map)
  with first g le show ?thesis by blast
qed





end
